theory Spec2Isabelle
  imports Main "HOL-Library.Log_Nat"
begin

section \<open>Data model\<close>

text \<open>
  The persistent store behind \<^verbatim>\<open>audit.service.ts\<close>, as the service uses it: one list of
  rows per table.  Field names follow the Prisma models; every field is prefixed by its
  model, since several models share the names \<^verbatim>\<open>id\<close>, \<^verbatim>\<open>name\<close> and \<^verbatim>\<open>url\<close>.  The unique keys
  are the ones the service names in its \<^verbatim>\<open>where\<close> clauses (\<^verbatim>\<open>email_auditUniqueId\<close>,
  \<^verbatim>\<open>name_function_url_auditUniqueId\<close>, the seven-field environment key, \<^verbatim>\<open>url_auditUniqueId\<close>
  and \<^verbatim>\<open>auditUniqueId_pageUrl_topic_criterium\<close>).
\<close>

datatype CriterionResultStatus = COMPLIANT | NOT_COMPLIANT | NOT_APPLICABLE | NOT_TESTED

datatype CriterionResultUserImpact = MINOR | MAJOR | BLOCKING

datatype AuditType = FAST | COMPLEMENTARY | FULL

text \<open>A \<^verbatim>\<open>Date\<close> is its number of milliseconds; \<^verbatim>\<open>new Date()\<close> is a parameter \<open>now\<close>.\<close>

type_synonym date = nat

record Recipent =
  recipent_id :: nat
  recipent_name :: string
  recipent_email :: string
  recipent_auditUniqueId :: string

record Tool =
  tool_id :: nat
  tool_name :: string
  tool_function :: string
  tool_url :: string
  tool_auditUniqueId :: string

record TestEnvironment =
  env_id :: nat
  env_platform :: string
  env_operatingSystem :: string
  env_operatingSystemVersion :: string
  env_assistiveTechnology :: string
  env_assistiveTechnologyVersion :: string
  env_browser :: string
  env_browserVersion :: string
  env_auditUniqueId :: string

record AuditedPage =
  page_id :: nat
  page_name :: string
  page_url :: string
  page_auditUniqueId :: string

record CriterionResult =
  cr_id :: nat
  cr_status :: CriterionResultStatus
  cr_compliantComment :: "string option"
  cr_errorDescription :: "string option"
  cr_userImpact :: "CriterionResultUserImpact option"
  cr_recommandation :: "string option"
  cr_notApplicableComment :: "string option"
  cr_topic :: int
  cr_criterium :: int
  cr_pageUrl :: string
  cr_auditUniqueId :: string

record AuditTrace =
  trace_id :: nat
  trace_auditEditUniqueId :: string
  trace_auditConsultUniqueId :: string

record Audit =
  audit_id :: nat
  audit_editUniqueId :: string
  audit_consultUniqueId :: string
  audit_procedureName :: string
  audit_procedureUrl :: string
  audit_initiator :: string
  audit_auditorEmail :: string
  audit_auditorName :: string
  audit_contactName :: string
  audit_contactEmail :: "string option"
  audit_contactFormUrl :: "string option"
  audit_technologies :: "string list"
  audit_auditType :: "AuditType option"
  audit_notCompliantContent :: "string option"
  audit_derogatedContent :: "string option"
  audit_notInScopeContent :: "string option"
  audit_publicationDate :: "date option"
  audit_editionDate :: "date option"
  audit_auditTraceId :: nat

text \<open>
  The database.  \<open>nextId\<close> stands for the autoincrement sequences: one counter serves
  every table, which keeps identifiers fresh within each of them.
\<close>

record db =
  audits :: "Audit list"
  recipents :: "Recipent list"
  tools :: "Tool list"
  environments :: "TestEnvironment list"
  auditedPages :: "AuditedPage list"
  criterionResults :: "CriterionResult list"
  auditTraces :: "AuditTrace list"
  nextId :: nat

text \<open>An audit with \<^verbatim>\<open>AUDIT_EDIT_INCLUDE\<close>: its recipients, tools, environments and pages.\<close>

record AuditWithIncludes =
  inc_audit :: Audit
  inc_recipients :: "Recipent list"
  inc_tools :: "Tool list"
  inc_environments :: "TestEnvironment list"
  inc_pages :: "AuditedPage list"

subsection \<open>Request payloads\<close>

record RecipientDto =
  rdto_name :: string
  rdto_email :: string

record ToolDto =
  tdto_name :: string
  tdto_function :: string
  tdto_url :: string

record EnvironmentDto =
  edto_platform :: string
  edto_operatingSystem :: string
  edto_operatingSystemVersion :: string
  edto_assistiveTechnology :: string
  edto_assistiveTechnologyVersion :: string
  edto_browser :: string
  edto_browserVersion :: string

text \<open>\<^verbatim>\<open>UpdateAuditPage\<close>: the identifier is optional; \<^verbatim>\<open>p.id\<close> is tested for truthiness.\<close>

record UpdateAuditPage =
  updto_id :: "nat option"
  updto_name :: string
  updto_url :: string

record CreateAuditDto =
  c_procedureName :: string
  c_procedureUrl :: string
  c_initiator :: string
  c_auditorEmail :: string
  c_auditorName :: string
  c_contactName :: string
  c_contactEmail :: "string option"
  c_contactFormUrl :: "string option"
  c_technologies :: "string list"
  c_recipients :: "RecipientDto list"

record UpdateAuditDto =
  u_procedureName :: string
  u_procedureUrl :: string
  u_initiator :: string
  u_auditorEmail :: string
  u_auditorName :: string
  u_contactName :: string
  u_contactEmail :: "string option"
  u_contactFormUrl :: "string option"
  u_recipients :: "RecipientDto list"
  u_auditType :: AuditType
  u_tools :: "ToolDto list"
  u_environments :: "EnvironmentDto list"
  u_pages :: "UpdateAuditPage list"
  u_notCompliantContent :: "string option"
  u_derogatedContent :: "string option"
  u_notInScopeContent :: "string option"

text \<open>One element of \<^verbatim>\<open>UpdateResultsDto.data\<close>.\<close>

record UpdateResultsItem =
  item_pageUrl :: string
  item_topic :: int
  item_criterium :: int
  item_status :: CriterionResultStatus
  item_compliantComment :: "string option"
  item_errorDescription :: "string option"
  item_notApplicableComment :: "string option"
  item_recommandation :: "string option"
  item_userImpact :: "CriterionResultUserImpact option"

subsection \<open>Errors\<close>

text \<open>
  A thrown value, reduced to what the handlers read: its \<^verbatim>\<open>code\<close> property, if it has one
  (\<^verbatim>\<open>e?.code === 'P2025'\<close>).  Prisma's \<^verbatim>\<open>P2025\<close> is "an operation failed because it depends
  on one or more records that were required but not found", \<^verbatim>\<open>P2002\<close> a violated unique
  constraint.
\<close>

datatype js_error = JsError (code: "string option")

definition P2025 :: js_error where
  "P2025 = JsError (Some ''P2025'')"

definition P2002 :: js_error where
  "P2002 = JsError (Some ''P2002'')"

text \<open>What a controller method ends with when it does not return a value.\<close>

datatype http_exception =
  NotFoundException | GoneException | ConflictException | Uncaught js_error

section \<open>The audit service\<close>

subsection \<open>Reading an audit\<close>

definition include_of :: "db \<Rightarrow> Audit \<Rightarrow> AuditWithIncludes" where
  "include_of d a =
     \<lparr>inc_audit = a,
      inc_recipients = filter (\<lambda>r. recipent_auditUniqueId r = audit_editUniqueId a) (recipents d),
      inc_tools = filter (\<lambda>t. tool_auditUniqueId t = audit_editUniqueId a) (tools d),
      inc_environments = filter (\<lambda>e. env_auditUniqueId e = audit_editUniqueId a) (environments d),
      inc_pages = filter (\<lambda>p. page_auditUniqueId p = audit_editUniqueId a) (auditedPages d)\<rparr>"

definition getAuditWithEditUniqueId :: "db \<Rightarrow> string \<Rightarrow> AuditWithIncludes option" where
  "getAuditWithEditUniqueId d uniqueId =
     map_option (include_of d) (find (\<lambda>a. audit_editUniqueId a = uniqueId) (audits d))"

subsection \<open>Creating and deleting\<close>

text \<open>
  \<^verbatim>\<open>createAudit\<close>: the two \<^verbatim>\<open>nanoid()\<close> tokens are parameters.  The nested \<^verbatim>\<open>create\<close> writes the
  trace row, the audit row and the recipients; a token already in use or two recipients
  with one email violate a unique constraint.
\<close>

definition new_recipent :: "string \<Rightarrow> nat \<Rightarrow> RecipientDto \<Rightarrow> Recipent" where
  "new_recipent uniqueId i r =
     \<lparr>recipent_id = i, recipent_name = rdto_name r, recipent_email = rdto_email r,
      recipent_auditUniqueId = uniqueId\<rparr>"

definition createAudit ::
  "db \<Rightarrow> string \<Rightarrow> string \<Rightarrow> CreateAuditDto \<Rightarrow> js_error + (AuditWithIncludes \<times> db)" where
  "createAudit d editUniqueId consultUniqueId data =
     (if list_ex (\<lambda>a. audit_editUniqueId a = editUniqueId
                      \<or> audit_consultUniqueId a = consultUniqueId) (audits d)
         \<or> list_ex (\<lambda>t. trace_auditEditUniqueId t = editUniqueId
                      \<or> trace_auditConsultUniqueId t = consultUniqueId) (auditTraces d)
         \<or> \<not> distinct (map rdto_email (c_recipients data))
      then Inl P2002
      else
        let n = nextId d;
            trace = \<lparr>trace_id = n, trace_auditEditUniqueId = editUniqueId,
                     trace_auditConsultUniqueId = consultUniqueId\<rparr>;
            audit = \<lparr>audit_id = n + 1,
                     audit_editUniqueId = editUniqueId,
                     audit_consultUniqueId = consultUniqueId,
                     audit_procedureName = c_procedureName data,
                     audit_procedureUrl = c_procedureUrl data,
                     audit_initiator = c_initiator data,
                     audit_auditorEmail = c_auditorEmail data,
                     audit_auditorName = c_auditorName data,
                     audit_contactName = c_contactName data,
                     audit_contactEmail = c_contactEmail data,
                     audit_contactFormUrl = c_contactFormUrl data,
                     audit_technologies = c_technologies data,
                     audit_auditType = None,
                     audit_notCompliantContent = None,
                     audit_derogatedContent = None,
                     audit_notInScopeContent = None,
                     audit_publicationDate = None,
                     audit_editionDate = None,
                     audit_auditTraceId = n\<rparr>;
            rs = map (\<lambda>(i, r). new_recipent editUniqueId (n + 2 + i) r)
                   (enumerate 0 (c_recipients data));
            d' = d\<lparr>audits := audits d @ [audit],
                   recipents := recipents d @ rs,
                   auditTraces := auditTraces d @ [trace],
                   nextId := n + 2 + length rs\<rparr>
        in Inr (include_of d' audit, d'))"

text \<open>
  \<^verbatim>\<open>prisma.audit.delete\<close>: every relation to the audit is declared \<^verbatim>\<open>onDelete: Cascade\<close>, and
  the results go with their pages.  The trace row holds no reference to the audit (the
  audit refers to it) and stays.
\<close>

definition prisma_audit_delete :: "db \<Rightarrow> string \<Rightarrow> js_error + db" where
  "prisma_audit_delete d uniqueId =
     (if \<not> list_ex (\<lambda>a. audit_editUniqueId a = uniqueId) (audits d) then Inl P2025
      else Inr (d\<lparr>audits := filter (\<lambda>a. audit_editUniqueId a \<noteq> uniqueId) (audits d),
                  recipents := filter (\<lambda>r. recipent_auditUniqueId r \<noteq> uniqueId) (recipents d),
                  tools := filter (\<lambda>t. tool_auditUniqueId t \<noteq> uniqueId) (tools d),
                  environments := filter (\<lambda>e. env_auditUniqueId e \<noteq> uniqueId) (environments d),
                  auditedPages := filter (\<lambda>p. page_auditUniqueId p \<noteq> uniqueId) (auditedPages d),
                  criterionResults :=
                    filter (\<lambda>r. cr_auditUniqueId r \<noteq> uniqueId) (criterionResults d)\<rparr>))"

definition deleteAudit :: "db \<Rightarrow> string \<Rightarrow> js_error + (bool \<times> db)" where
  "deleteAudit d uniqueId =
     (case prisma_audit_delete d uniqueId of
        Inr d' \<Rightarrow> Inr (True, d')
      | Inl e \<Rightarrow> if code e = Some ''P2025'' then Inr (False, d) else Inl e)"

text \<open>
  \<^verbatim>\<open>checkIfAuditWasDeleted\<close>: \<^verbatim>\<open>findUniqueOrThrow\<close> on the trace table inside a \<^verbatim>\<open>try\<close> whose
  \<^verbatim>\<open>catch\<close> returns false for whatever was thrown.
\<close>

definition checkIfAuditWasDeleted :: "db \<Rightarrow> string \<Rightarrow> bool" where
  "checkIfAuditWasDeleted d uniqueId =
     list_ex (\<lambda>t. trace_auditEditUniqueId t = uniqueId) (auditTraces d)"

subsection \<open>Results\<close>

text \<open>
  \<^verbatim>\<open>CRITERIA\<close> (\<^verbatim>\<open>./criteria\<close>) is not among the sources; the catalog is a parameter of
  everything that reads it.
\<close>

record Criterion =
  criterion_topic :: int
  criterion_criterium :: int

text \<open>
  The object literal returned for a missing row.  It has neither \<^verbatim>\<open>id\<close> nor
  \<^verbatim>\<open>auditUniqueId\<close>, so an entry of the returned array is one of two shapes.
\<close>

record PlaceholderResult =
  ph_status :: CriterionResultStatus
  ph_compliantComment :: "string option"
  ph_errorDescription :: "string option"
  ph_userImpact :: "CriterionResultUserImpact option"
  ph_recommandation :: "string option"
  ph_notApplicableComment :: "string option"
  ph_topic :: int
  ph_criterium :: int
  ph_pageUrl :: string

datatype ResultEntry = Existing CriterionResult | Placeholder PlaceholderResult

text \<open>
  The relation filter \<^verbatim>\<open>page: { auditUniqueId: uniqueId }\<close> keeps the results whose page
  (the page with the result's url and audit id) belongs to the audit.
\<close>

definition results_of_audit_pages :: "db \<Rightarrow> string \<Rightarrow> CriterionResult list" where
  "results_of_audit_pages d uniqueId =
     filter (\<lambda>r. list_ex (\<lambda>p. page_url p = cr_pageUrl r
                             \<and> page_auditUniqueId p = cr_auditUniqueId r
                             \<and> page_auditUniqueId p = uniqueId) (auditedPages d))
       (criterionResults d)"

definition result_or_placeholder ::
  "CriterionResult list \<Rightarrow> AuditedPage \<Rightarrow> Criterion \<Rightarrow> ResultEntry" where
  "result_or_placeholder existingResults page criterion =
     (case find (\<lambda>result. cr_pageUrl result = page_url page
                          \<and> cr_topic result = criterion_topic criterion
                          \<and> cr_criterium result = criterion_criterium criterion)
             existingResults of
        Some existingResult \<Rightarrow> Existing existingResult
      | None \<Rightarrow>
          Placeholder
            \<lparr>ph_status = NOT_TESTED,
             ph_compliantComment = None,
             ph_errorDescription = None,
             ph_userImpact = None,
             ph_recommandation = None,
             ph_notApplicableComment = None,
             ph_topic = criterion_topic criterion,
             ph_criterium = criterion_criterium criterion,
             ph_pageUrl = page_url page\<rparr>)"

definition getResultsWithEditUniqueId ::
  "Criterion list \<Rightarrow> db \<Rightarrow> string \<Rightarrow> ResultEntry list" where
  "getResultsWithEditUniqueId CRITERIA d uniqueId =
     (let pages = filter (\<lambda>p. page_auditUniqueId p = uniqueId) (auditedPages d);
          existingResults = results_of_audit_pages d uniqueId
      in concat (map (\<lambda>page. map (result_or_placeholder existingResults page) CRITERIA) pages))"

definition isAuditComplete :: "db \<Rightarrow> string \<Rightarrow> bool" where
  "isAuditComplete d uniqueId =
     (let notTestedCount =
            length (filter (\<lambda>r. cr_auditUniqueId r = uniqueId \<and> cr_status r = NOT_TESTED)
                      (criterionResults d))
      in notTestedCount = 0)"

subsection \<open>Updating an audit\<close>

text \<open>
  A sequence of fallible writes inside one transaction: the first error ends it, and the
  caller, which gets no state back, keeps the state it had (the rollback).
\<close>

fun fold_err :: "('a \<Rightarrow> 's \<Rightarrow> 'e + 's) \<Rightarrow> 'a list \<Rightarrow> 's \<Rightarrow> 'e + 's" where
  "fold_err f [] s = Inr s"
| "fold_err f (x # xs) s = (case f x s of Inl e \<Rightarrow> Inl e | Inr s' \<Rightarrow> fold_err f xs s')"

text \<open>
  \<^verbatim>\<open>updateAuditEditDate\<close>: \<^verbatim>\<open>updateMany\<close> on the audits with this edit id that are published.
\<close>

definition updateAuditEditDate :: "string \<Rightarrow> date \<Rightarrow> db \<Rightarrow> db" where
  "updateAuditEditDate uniqueId now d =
     d\<lparr>audits := map (\<lambda>a. if audit_editUniqueId a = uniqueId \<and> audit_publicationDate a \<noteq> None
                            then a\<lparr>audit_editionDate := Some now\<rparr> else a) (audits d)\<rparr>"

text \<open>
  The nested writes of \<^verbatim>\<open>prisma.audit.update\<close>, each scoped to the rows of the audit, in the
  order the source lists them.  \<^verbatim>\<open>notIn\<close> matches the rows whose field is not in the list.
\<close>

definition recipients_deleteMany :: "string \<Rightarrow> string list \<Rightarrow> db \<Rightarrow> db" where
  "recipients_deleteMany uniqueId emails d =
     d\<lparr>recipents := filter (\<lambda>r. \<not> (recipent_auditUniqueId r = uniqueId
                                     \<and> recipent_email r \<notin> set emails)) (recipents d)\<rparr>"

definition recipient_upsert :: "string \<Rightarrow> db \<Rightarrow> RecipientDto \<Rightarrow> db" where
  "recipient_upsert uniqueId d recipient =
     (if list_ex (\<lambda>r. recipent_auditUniqueId r = uniqueId
                     \<and> recipent_email r = rdto_email recipient) (recipents d)
      then d\<lparr>recipents :=
               map (\<lambda>r. if recipent_auditUniqueId r = uniqueId
                           \<and> recipent_email r = rdto_email recipient
                        then r\<lparr>recipent_name := rdto_name recipient,
                               recipent_email := rdto_email recipient\<rparr>
                        else r) (recipents d)\<rparr>
      else d\<lparr>recipents := recipents d @ [new_recipent uniqueId (nextId d) recipient],
              nextId := nextId d + 1\<rparr>)"

definition tools_deleteMany :: "string \<Rightarrow> ToolDto list \<Rightarrow> db \<Rightarrow> db" where
  "tools_deleteMany uniqueId ts d =
     d\<lparr>tools := filter (\<lambda>t. \<not> (tool_auditUniqueId t = uniqueId
                                 \<and> (tool_name t \<notin> set (map tdto_name ts)
                                    \<or> tool_function t \<notin> set (map tdto_function ts)
                                    \<or> tool_url t \<notin> set (map tdto_url ts)))) (tools d)\<rparr>"

definition tool_matches :: "string \<Rightarrow> ToolDto \<Rightarrow> Tool \<Rightarrow> bool" where
  "tool_matches uniqueId tool t \<longleftrightarrow>
     tool_auditUniqueId t = uniqueId \<and> tool_name t = tdto_name tool
     \<and> tool_function t = tdto_function tool \<and> tool_url t = tdto_url tool"

definition tool_upsert :: "string \<Rightarrow> db \<Rightarrow> ToolDto \<Rightarrow> db" where
  "tool_upsert uniqueId d tool =
     (if list_ex (tool_matches uniqueId tool) (tools d)
      then d\<lparr>tools :=
               map (\<lambda>t. if tool_matches uniqueId tool t
                        then t\<lparr>tool_name := tdto_name tool,
                               tool_function := tdto_function tool,
                               tool_url := tdto_url tool\<rparr>
                        else t) (tools d)\<rparr>
      else d\<lparr>tools := tools d @
                [\<lparr>tool_id = nextId d, tool_name = tdto_name tool,
                  tool_function = tdto_function tool, tool_url = tdto_url tool,
                  tool_auditUniqueId = uniqueId\<rparr>],
              nextId := nextId d + 1\<rparr>)"

definition environments_deleteMany :: "string \<Rightarrow> EnvironmentDto list \<Rightarrow> db \<Rightarrow> db" where
  "environments_deleteMany uniqueId es d =
     d\<lparr>environments :=
         filter (\<lambda>e. \<not> (env_auditUniqueId e = uniqueId
              \<and> (env_platform e \<notin> set (map edto_platform es)
                 \<or> env_operatingSystem e \<notin> set (map edto_operatingSystem es)
                 \<or> env_operatingSystemVersion e \<notin> set (map edto_operatingSystemVersion es)
                 \<or> env_assistiveTechnology e \<notin> set (map edto_assistiveTechnology es)
                 \<or> env_assistiveTechnologyVersion e
                      \<notin> set (map edto_assistiveTechnologyVersion es)
                 \<or> env_browser e \<notin> set (map edto_browser es)
                 \<or> env_browserVersion e \<notin> set (map edto_browserVersion es))))
           (environments d)\<rparr>"

definition environment_matches :: "string \<Rightarrow> EnvironmentDto \<Rightarrow> TestEnvironment \<Rightarrow> bool" where
  "environment_matches uniqueId environment e \<longleftrightarrow>
     env_auditUniqueId e = uniqueId
     \<and> env_platform e = edto_platform environment
     \<and> env_operatingSystem e = edto_operatingSystem environment
     \<and> env_operatingSystemVersion e = edto_operatingSystemVersion environment
     \<and> env_assistiveTechnology e = edto_assistiveTechnology environment
     \<and> env_assistiveTechnologyVersion e = edto_assistiveTechnologyVersion environment
     \<and> env_browser e = edto_browser environment
     \<and> env_browserVersion e = edto_browserVersion environment"

definition environment_upsert :: "string \<Rightarrow> db \<Rightarrow> EnvironmentDto \<Rightarrow> db" where
  "environment_upsert uniqueId d environment =
     (if list_ex (environment_matches uniqueId environment) (environments d)
      then d\<lparr>environments :=
               map (\<lambda>e. if environment_matches uniqueId environment e
                        then e\<lparr>env_platform := edto_platform environment,
                               env_operatingSystem := edto_operatingSystem environment,
                               env_operatingSystemVersion :=
                                 edto_operatingSystemVersion environment,
                               env_assistiveTechnology := edto_assistiveTechnology environment,
                               env_assistiveTechnologyVersion :=
                                 edto_assistiveTechnologyVersion environment,
                               env_browser := edto_browser environment,
                               env_browserVersion := edto_browserVersion environment\<rparr>
                        else e) (environments d)\<rparr>
      else d\<lparr>environments := environments d @
                [\<lparr>env_id = nextId d,
                  env_platform = edto_platform environment,
                  env_operatingSystem = edto_operatingSystem environment,
                  env_operatingSystemVersion = edto_operatingSystemVersion environment,
                  env_assistiveTechnology = edto_assistiveTechnology environment,
                  env_assistiveTechnologyVersion = edto_assistiveTechnologyVersion environment,
                  env_browser = edto_browser environment,
                  env_browserVersion = edto_browserVersion environment,
                  env_auditUniqueId = uniqueId\<rparr>],
              nextId := nextId d + 1\<rparr>)"

text \<open>\<^verbatim>\<open>data.pages.filter((p) => p.id)\<close>: an absent identifier and the number 0 are falsy.\<close>

definition has_id :: "UpdateAuditPage \<Rightarrow> bool" where
  "has_id p = (case updto_id p of None \<Rightarrow> False | Some i \<Rightarrow> i \<noteq> 0)"

text \<open>
  Deleting a page takes its results with it (the results are linked to the page through
  the page url and the audit id, with cascading delete and update).
\<close>

definition pages_deleteMany :: "string \<Rightarrow> nat list \<Rightarrow> db \<Rightarrow> db" where
  "pages_deleteMany uniqueId ids d =
     (let deleted = filter (\<lambda>p. page_auditUniqueId p = uniqueId \<and> page_id p \<notin> set ids)
                      (auditedPages d)
      in d\<lparr>auditedPages := filter (\<lambda>p. \<not> (page_auditUniqueId p = uniqueId
                                           \<and> page_id p \<notin> set ids)) (auditedPages d),
            criterionResults := filter (\<lambda>r. \<not> (cr_auditUniqueId r = uniqueId
                                               \<and> cr_pageUrl r \<in> set (map page_url deleted)))
                                  (criterionResults d)\<rparr>)"

text \<open>
  A nested \<^verbatim>\<open>update\<close> whose \<^verbatim>\<open>where\<close> finds no page of this audit fails with \<^verbatim>\<open>P2025\<close>; a url
  already used by another page of the audit violates \<^verbatim>\<open>url_auditUniqueId\<close>.
\<close>

definition page_update :: "string \<Rightarrow> UpdateAuditPage \<Rightarrow> db \<Rightarrow> js_error + db" where
  "page_update uniqueId p d =
     (case updto_id p of
        None \<Rightarrow> Inl (JsError None)
      | Some i \<Rightarrow>
          (case find (\<lambda>q. page_id q = i \<and> page_auditUniqueId q = uniqueId) (auditedPages d) of
             None \<Rightarrow> Inl P2025
           | Some old \<Rightarrow>
               if list_ex (\<lambda>q. page_auditUniqueId q = uniqueId \<and> page_id q \<noteq> i
                               \<and> page_url q = updto_url p) (auditedPages d)
               then Inl P2002
               else Inr (d\<lparr>auditedPages :=
                             map (\<lambda>q. if page_id q = i \<and> page_auditUniqueId q = uniqueId
                                      then q\<lparr>page_name := updto_name p, page_url := updto_url p\<rparr>
                                      else q) (auditedPages d),
                           criterionResults :=
                             map (\<lambda>r. if cr_auditUniqueId r = uniqueId
                                         \<and> cr_pageUrl r = page_url old
                                      then r\<lparr>cr_pageUrl := updto_url p\<rparr> else r)
                               (criterionResults d)\<rparr>)))"

definition pages_createMany :: "string \<Rightarrow> UpdateAuditPage list \<Rightarrow> db \<Rightarrow> js_error + db" where
  "pages_createMany uniqueId newPages d =
     (if \<not> distinct (map updto_url newPages)
         \<or> list_ex (\<lambda>q. page_auditUniqueId q = uniqueId
                        \<and> page_url q \<in> set (map updto_url newPages)) (auditedPages d)
      then Inl P2002
      else Inr (d\<lparr>auditedPages := auditedPages d @
                    map (\<lambda>(i, p). \<lparr>page_id = nextId d + i, page_name = updto_name p,
                                   page_url = updto_url p, page_auditUniqueId = uniqueId\<rparr>)
                      (enumerate 0 newPages),
                  nextId := nextId d + length newPages\<rparr>))"

definition update_scalars :: "UpdateAuditDto \<Rightarrow> Audit \<Rightarrow> Audit" where
  "update_scalars data a =
     a\<lparr>audit_procedureName := u_procedureName data,
       audit_procedureUrl := u_procedureUrl data,
       audit_initiator := u_initiator data,
       audit_auditorEmail := u_auditorEmail data,
       audit_auditorName := u_auditorName data,
       audit_contactName := u_contactName data,
       audit_contactEmail := u_contactEmail data,
       audit_contactFormUrl := u_contactFormUrl data,
       audit_auditType := Some (u_auditType data),
       audit_notCompliantContent := u_notCompliantContent data,
       audit_derogatedContent := u_derogatedContent data,
       audit_notInScopeContent := u_notInScopeContent data\<rparr>"

text \<open>
  \<^verbatim>\<open>prisma.audit.update\<close> with \<^verbatim>\<open>where: { editUniqueId: uniqueId }\<close>: \<^verbatim>\<open>P2025\<close> when there is no
  such audit; otherwise the scalar fields and the four nested collections are written and
  the audit is returned with its includes.
\<close>

definition prisma_audit_update ::
  "db \<Rightarrow> string \<Rightarrow> UpdateAuditDto \<Rightarrow> js_error + (AuditWithIncludes \<times> db)" where
  "prisma_audit_update d uniqueId data =
     (case find (\<lambda>a. audit_editUniqueId a = uniqueId) (audits d) of
        None \<Rightarrow> Inl P2025
      | Some a \<Rightarrow>
          let updatedPages = filter has_id (u_pages data);
              newPages = filter (\<lambda>p. \<not> has_id p) (u_pages data);
              d1 = d\<lparr>audits := map (\<lambda>b. if audit_editUniqueId b = uniqueId
                                        then update_scalars data b else b) (audits d)\<rparr>;
              d2 = foldl (recipient_upsert uniqueId)
                     (recipients_deleteMany uniqueId (map rdto_email (u_recipients data)) d1)
                     (u_recipients data);
              d3 = foldl (tool_upsert uniqueId)
                     (tools_deleteMany uniqueId (u_tools data) d2) (u_tools data);
              d4 = foldl (environment_upsert uniqueId)
                     (environments_deleteMany uniqueId (u_environments data) d3)
                     (u_environments data);
              d5 = pages_deleteMany uniqueId (map (\<lambda>p. the (updto_id p)) updatedPages) d4
          in (case fold_err (page_update uniqueId) updatedPages d5 of
                Inl e \<Rightarrow> Inl e
              | Inr d6 \<Rightarrow>
                  (case pages_createMany uniqueId newPages d6 of
                     Inl e \<Rightarrow> Inl e
                   | Inr d7 \<Rightarrow> Inr (include_of d7 (update_scalars data a), d7))))"

text \<open>
  The \<^verbatim>\<open>try\<close> block of \<^verbatim>\<open>updateAudit\<close>: the transaction of the update and of the edit-date
  stamp; the value returned is the result of the first of the two.
\<close>

definition updateAudit_transaction ::
  "db \<Rightarrow> string \<Rightarrow> UpdateAuditDto \<Rightarrow> date \<Rightarrow> js_error + (AuditWithIncludes \<times> db)" where
  "updateAudit_transaction d uniqueId data now =
     (case prisma_audit_update d uniqueId data of
        Inl e \<Rightarrow> Inl e
      | Inr (audit, d') \<Rightarrow> Inr (audit, updateAuditEditDate uniqueId now d'))"

text \<open>
  The \<^verbatim>\<open>catch\<close> block of \<^verbatim>\<open>updateAudit\<close>, applied to the outcome of the \<^verbatim>\<open>try\<close> block:
  \<^verbatim>\<open>undefined\<close> for an error whose code is \<^verbatim>\<open>P2025\<close>, any other error thrown again.
\<close>

definition updateAudit_catch ::
  "db \<Rightarrow> js_error + (AuditWithIncludes \<times> db) \<Rightarrow> js_error + (AuditWithIncludes option \<times> db)" where
  "updateAudit_catch d outcome =
     (case outcome of
        Inr (audit, d') \<Rightarrow> Inr (Some audit, d')
      | Inl e \<Rightarrow> if code e = Some ''P2025'' then Inr (None, d) else Inl e)"

definition updateAudit ::
  "db \<Rightarrow> string \<Rightarrow> UpdateAuditDto \<Rightarrow> date \<Rightarrow> js_error + (AuditWithIncludes option \<times> db)" where
  "updateAudit d uniqueId data now =
     updateAudit_catch d (updateAudit_transaction d uniqueId data now)"

subsection \<open>Updating results\<close>

definition result_matches :: "string \<Rightarrow> UpdateResultsItem \<Rightarrow> CriterionResult \<Rightarrow> bool" where
  "result_matches uniqueId item r \<longleftrightarrow>
     cr_auditUniqueId r = uniqueId \<and> cr_criterium r = item_criterium item
     \<and> cr_pageUrl r = item_pageUrl item \<and> cr_topic r = item_topic item"

definition write_item :: "UpdateResultsItem \<Rightarrow> CriterionResult \<Rightarrow> CriterionResult" where
  "write_item item r =
     r\<lparr>cr_criterium := item_criterium item,
       cr_topic := item_topic item,
       cr_pageUrl := item_pageUrl item,
       cr_status := item_status item,
       cr_compliantComment := item_compliantComment item,
       cr_errorDescription := item_errorDescription item,
       cr_notApplicableComment := item_notApplicableComment item,
       cr_recommandation := item_recommandation item,
       cr_userImpact := item_userImpact item\<rparr>"

text \<open>
  One \<^verbatim>\<open>criterionResult.upsert\<close>.  Both its \<^verbatim>\<open>create\<close> and its \<^verbatim>\<open>update\<close> connect the page
  \<^verbatim>\<open>url_auditUniqueId\<close>; with no such page the connect fails with \<^verbatim>\<open>P2025\<close>.
\<close>

definition result_upsert :: "string \<Rightarrow> UpdateResultsItem \<Rightarrow> db \<Rightarrow> js_error + db" where
  "result_upsert uniqueId item d =
     (if \<not> list_ex (\<lambda>p. page_auditUniqueId p = uniqueId \<and> page_url p = item_pageUrl item)
             (auditedPages d)
      then Inl P2025
      else if list_ex (result_matches uniqueId item) (criterionResults d)
      then Inr (d\<lparr>criterionResults :=
                    map (\<lambda>r. if result_matches uniqueId item r then write_item item r else r)
                      (criterionResults d)\<rparr>)
      else Inr (d\<lparr>criterionResults := criterionResults d @
                    [\<lparr>cr_id = nextId d,
                      cr_status = item_status item,
                      cr_compliantComment = item_compliantComment item,
                      cr_errorDescription = item_errorDescription item,
                      cr_userImpact = item_userImpact item,
                      cr_recommandation = item_recommandation item,
                      cr_notApplicableComment = item_notApplicableComment item,
                      cr_topic = item_topic item,
                      cr_criterium = item_criterium item,
                      cr_pageUrl = item_pageUrl item,
                      cr_auditUniqueId = uniqueId\<rparr>],
                  nextId := nextId d + 1\<rparr>))"

text \<open>\<^verbatim>\<open>updateResults\<close> has no \<^verbatim>\<open>try\<close>: whatever the transaction throws, it throws.\<close>

definition updateResults ::
  "db \<Rightarrow> string \<Rightarrow> UpdateResultsItem list \<Rightarrow> date \<Rightarrow> js_error + db" where
  "updateResults d uniqueId body now =
     (case fold_err (result_upsert uniqueId) body d of
        Inl e \<Rightarrow> Inl e
      | Inr d' \<Rightarrow> Inr (updateAuditEditDate uniqueId now d'))"

subsection \<open>Publishing\<close>



section \<open>The controller\<close>

text \<open>
  A controller method ends with a value or with an exception; the mutating ones also
  leave a database behind.  \<^verbatim>\<open>sendAuditNotFoundStatus\<close> always throws: it is the exception.
\<close>

definition sendAuditNotFoundStatus :: "db \<Rightarrow> string \<Rightarrow> http_exception" where
  "sendAuditNotFoundStatus d editUniqueId =
     (if checkIfAuditWasDeleted d editUniqueId then GoneException else NotFoundException)"

definition AuditsController_getAudit :: "db \<Rightarrow> string \<Rightarrow> http_exception + AuditWithIncludes" where
  "AuditsController_getAudit d uniqueId =
     (case getAuditWithEditUniqueId d uniqueId of
        None \<Rightarrow> Inl (sendAuditNotFoundStatus d uniqueId)
      | Some audit \<Rightarrow> Inr audit)"

definition AuditsController_updateAudit ::
  "db \<Rightarrow> string \<Rightarrow> UpdateAuditDto \<Rightarrow> date \<Rightarrow> (http_exception + AuditWithIncludes) \<times> db" where
  "AuditsController_updateAudit d uniqueId body now =
     (case updateAudit d uniqueId body now of
        Inl e \<Rightarrow> (Inl (Uncaught e), d)
      | Inr (None, d') \<Rightarrow> (Inl (sendAuditNotFoundStatus d' uniqueId), d')
      | Inr (Some audit, d') \<Rightarrow> (Inr audit, d'))"

text \<open>\<^verbatim>\<open>!results\<close> on an array: every object is truthy, the empty array too.\<close>

definition js_truthy_array :: "'a list \<Rightarrow> bool" where
  "js_truthy_array xs = True"

definition AuditsController_getAuditResults ::
  "Criterion list \<Rightarrow> db \<Rightarrow> string \<Rightarrow> http_exception + ResultEntry list" where
  "AuditsController_getAuditResults CRITERIA d uniqueId =
     (let results = getResultsWithEditUniqueId CRITERIA d uniqueId
      in if \<not> js_truthy_array results then Inl (sendAuditNotFoundStatus d uniqueId)
         else Inr results)"



definition AuditsController_deleteAudit :: "db \<Rightarrow> string \<Rightarrow> (http_exception + unit) \<times> db" where
  "AuditsController_deleteAudit d uniqueId =
     (case deleteAudit d uniqueId of
        Inl e \<Rightarrow> (Inl (Uncaught e), d)
      | Inr (deleted, d') \<Rightarrow>
          if \<not> deleted then (Inl (sendAuditNotFoundStatus d' uniqueId), d') else (Inr (), d'))"

section \<open>The report\<close>

subsection \<open>Numbers\<close>

text \<open>
  The report divides and multiplies counts as JavaScript numbers, that is as IEEE 754
  binary64 values with round-to-nearest, ties to even.  A finite value is the rational
  it denotes.  Only what the report can meet is covered: the operands are counts (array
  lengths) and the constant 100, so no value is negative and none leaves the range of
  the normal numbers; \<open>0 / 0\<close> is \<open>NaN\<close> and \<open>n / 0\<close> for a positive \<open>n\<close> is \<open>Infinity\<close>.
\<close>

datatype js_number = NaN | Infinity | Finite rat

text \<open>For a positive \<open>x\<close>, the exponent \<open>e\<close> with \<open>2\<^sup>e \<le> x < 2\<^sup>e\<^sup>+\<^sup>1\<close>.\<close>

definition floor_log2 :: "rat \<Rightarrow> int" where
  "floor_log2 x =
     (case quotient_of x of (p, q) \<Rightarrow>
        let k = bitlen p - bitlen q in if 2 powi k \<le> x then k else k - 1)"

definition round_half_even :: "rat \<Rightarrow> int" where
  "round_half_even y =
     (let f = \<lfloor>y\<rfloor>; r = y - of_int f
      in if r < 1 / 2 then f else if 1 / 2 < r then f + 1 else if even f then f else f + 1)"

text \<open>The binary64 value nearest to a non-negative rational: 53 significant bits.\<close>

definition binary64 :: "rat \<Rightarrow> rat" where
  "binary64 x =
     (if x = 0 then 0
      else let ulp = 2 powi (floor_log2 x - 52) in of_int (round_half_even (x / ulp)) * ulp)"

fun js_divide :: "js_number \<Rightarrow> js_number \<Rightarrow> js_number" where
  "js_divide NaN y = NaN"
| "js_divide x NaN = NaN"
| "js_divide Infinity Infinity = NaN"
| "js_divide Infinity (Finite y) = Infinity"
| "js_divide (Finite x) Infinity = Finite 0"
| "js_divide (Finite x) (Finite y) =
     (if y = 0 then (if x = 0 then NaN else Infinity) else Finite (binary64 (x / y)))"

fun js_times :: "js_number \<Rightarrow> js_number \<Rightarrow> js_number" where
  "js_times NaN y = NaN"
| "js_times x NaN = NaN"
| "js_times Infinity Infinity = Infinity"
| "js_times Infinity (Finite y) = (if y = 0 then NaN else Infinity)"
| "js_times (Finite x) Infinity = (if x = 0 then NaN else Infinity)"
| "js_times (Finite x) (Finite y) = Finite (binary64 (x * y))"

text \<open>
  \<^verbatim>\<open>Math.round\<close>: the integer nearest to the argument, a tie going up; \<open>NaN\<close> and
  \<open>Infinity\<close> are returned as they are.
\<close>

fun Math_round :: "js_number \<Rightarrow> js_number" where
  "Math_round NaN = NaN"
| "Math_round Infinity = Infinity"
| "Math_round (Finite x) = Finite (of_int \<lfloor>x + 1 / 2\<rfloor>)"

text \<open>The \<^verbatim>\<open>length\<close> of an array as a number.\<close>

definition js_length :: "'a list \<Rightarrow> js_number" where
  "js_length xs = Finite (of_nat (length xs))"

subsection \<open>Aggregation\<close>

text \<open>
  \<^verbatim>\<open>groupedCriteria\<close>: the \<^verbatim>\<open>reduce\<close> that collects the results under the key
  \<^verbatim>\<open>`${c.topic}.${c.criterium}`\<close>.  Two results get the same key exactly when they agree on
  topic and criterium (both are integers, printed without a dot), so the key is the pair.
  The object is kept as the list of its entries in insertion order, which is the order of
  \<^verbatim>\<open>Object.values\<close>.
\<close>

fun push_group :: "'k \<Rightarrow> 'v \<Rightarrow> ('k \<times> 'v list) list \<Rightarrow> ('k \<times> 'v list) list" where
  "push_group key c [] = [(key, [c])]"
| "push_group key c ((k, cs) # acc) =
     (if k = key then (k, cs @ [c]) # acc else (k, cs) # push_group key c acc)"

definition groupedCriteria ::
  "CriterionResult list \<Rightarrow> ((int \<times> int) \<times> CriterionResult list) list" where
  "groupedCriteria results =
     foldl (\<lambda>acc c. push_group (cr_topic c, cr_criterium c) c acc) [] results"

definition applicableCriteria :: "CriterionResult list \<Rightarrow> CriterionResult list list" where
  "applicableCriteria results =
     filter (\<lambda>criteria. list_ex (\<lambda>c. cr_status c \<noteq> NOT_APPLICABLE) criteria)
       (map snd (groupedCriteria results))"

definition compliantCriteria :: "CriterionResult list \<Rightarrow> CriterionResult list list" where
  "compliantCriteria results =
     filter (\<lambda>criteria. list_all (\<lambda>c. cr_status c = COMPLIANT \<or> cr_status c = NOT_APPLICABLE)
                          criteria)
       (applicableCriteria results)"

definition accessibilityRate :: "CriterionResult list \<Rightarrow> js_number" where
  "accessibilityRate results =
     Math_round
       (js_times
          (js_divide (js_length (compliantCriteria results))
             (js_length (applicableCriteria results)))
          (Finite 100))"

text \<open>\<^verbatim>\<open>RGAA.topics\<close> (\<^verbatim>\<open>rgaa.json\<close>) is not among the sources either: a parameter.\<close>

record RgaaTopic =
  rgaa_topic :: string
  rgaa_number :: int

record Share =
  raw :: nat
  percentage :: js_number

record Distribution =
  dist_name :: string
  dist_compliant :: Share
  dist_notApplicable :: Share
  dist_notCompliant :: Share

record ResultDistribution =
  rd_compliant :: Share
  rd_notApplicable :: Share
  rd_notCompliant :: Share

text \<open>
  \<open>share sel den\<close> is the pair \<^verbatim>\<open>{ raw: sel.length, percentage: (sel.length / den) * 100 }\<close>
  that the report writes out nine times.
\<close>

definition share :: "'a list \<Rightarrow> js_number \<Rightarrow> Share" where
  "share selected den =
     \<lparr>raw = length selected,
      percentage = js_times (js_divide (js_length selected) den) (Finite 100)\<rparr>"

definition pageDistribution :: "CriterionResult list \<Rightarrow> AuditedPage \<Rightarrow> Distribution" where
  "pageDistribution results p =
     \<lparr>dist_name = page_name p,
      dist_compliant =
        share (filter (\<lambda>r. cr_pageUrl r = page_url p \<and> cr_status r = COMPLIANT) results)
          (Finite 106),
      dist_notApplicable =
        share (filter (\<lambda>r. cr_pageUrl r = page_url p \<and> cr_status r = NOT_APPLICABLE) results)
          (Finite 106),
      dist_notCompliant =
        share (filter (\<lambda>r. cr_pageUrl r = page_url p \<and> cr_status r = NOT_COMPLIANT) results)
          (Finite 106)\<rparr>"

definition topicDistribution :: "CriterionResult list \<Rightarrow> RgaaTopic \<Rightarrow> Distribution" where
  "topicDistribution results t =
     \<lparr>dist_name = rgaa_topic t,
      dist_compliant =
        share (filter (\<lambda>r. cr_topic r = rgaa_number t \<and> cr_status r = COMPLIANT) results)
          (js_length (filter (\<lambda>r. cr_topic r = rgaa_number t) results)),
      dist_notApplicable =
        share (filter (\<lambda>r. cr_topic r = rgaa_number t \<and> cr_status r = NOT_APPLICABLE) results)
          (js_length (filter (\<lambda>r. cr_topic r = rgaa_number t) results)),
      dist_notCompliant =
        share (filter (\<lambda>r. cr_topic r = rgaa_number t \<and> cr_status r = NOT_COMPLIANT) results)
          (js_length (filter (\<lambda>r. cr_topic r = rgaa_number t) results))\<rparr>"

text \<open>
  The part of \<^verbatim>\<open>AuditReportDto\<close> that is computed.  The fields copied from the audit row
  (names, urls, dates, \<^verbatim>\<open>context\<close>) and the copy of the result rows are left out.
\<close>

record AuditReport =
  report_consultUniqueId :: string
  report_errorCount :: nat
  report_blockingErrorCount :: nat
  report_totalCriteriaCount :: nat
  report_applicableCriteriaCount :: nat
  report_accessibilityRate :: js_number
  report_pageDistributions :: "Distribution list"
  report_resultDistribution :: ResultDistribution
  report_topicDistributions :: "Distribution list"

definition getAuditReportData :: "RgaaTopic list \<Rightarrow> db \<Rightarrow> string \<Rightarrow> AuditReport option" where
  "getAuditReportData RGAA_topics d consultUniqueId =
     (case find (\<lambda>a. audit_consultUniqueId a = consultUniqueId) (audits d) of
        None \<Rightarrow> None
      | Some audit \<Rightarrow>
          let results = filter (\<lambda>r. cr_auditUniqueId r = audit_editUniqueId audit)
                          (criterionResults d);
              pages = inc_pages (include_of d audit)
          in Some
            \<lparr>report_consultUniqueId = audit_consultUniqueId audit,
             report_errorCount =
               length (filter (\<lambda>r. cr_status r = NOT_COMPLIANT) results),
             report_blockingErrorCount =
               length (filter (\<lambda>r. cr_status r = NOT_COMPLIANT
                                   \<and> cr_userImpact r = Some BLOCKING) results),
             report_totalCriteriaCount = 106,
             report_applicableCriteriaCount = length (applicableCriteria results),
             report_accessibilityRate = accessibilityRate results,
             report_pageDistributions = map (pageDistribution results) pages,
             report_resultDistribution =
               \<lparr>rd_compliant =
                  share (filter (\<lambda>r. cr_status r = COMPLIANT) results) (js_length results),
                rd_notApplicable =
                  share (filter (\<lambda>r. cr_status r = NOT_APPLICABLE) results) (js_length results),
                rd_notCompliant =
                  share (filter (\<lambda>r. cr_status r = NOT_COMPLIANT) results) (js_length results)\<rparr>,
             report_topicDistributions = map (topicDistribution results) RGAA_topics\<rparr>)"

section \<open>Vocabulary of the properties\<close>

text \<open>
  The foreign key of \<^verbatim>\<open>AuditedPage\<close>: the audit a page names by its edit id exists.
\<close>

definition pages_belong_to_audits :: "db \<Rightarrow> bool" where
  "pages_belong_to_audits d \<longleftrightarrow>
     list_all (\<lambda>p. list_ex (\<lambda>a. audit_editUniqueId a = page_auditUniqueId p) (audits d))
       (auditedPages d)"

text \<open>The same batch applied at \<open>t1\<close> and then again at \<open>t2\<close>.\<close>

definition updateResults_twice ::
  "db \<Rightarrow> string \<Rightarrow> UpdateResultsItem list \<Rightarrow> date \<Rightarrow> date \<Rightarrow> js_error + db" where
  "updateResults_twice d uniqueId body t1 t2 =
     (case updateResults d uniqueId body t1 of
        Inl e \<Rightarrow> Inl e
      | Inr d1 \<Rightarrow> updateResults d1 uniqueId body t2)"

text \<open>What a batch of upserts makes of a row that exists throughout.\<close>

definition rewrite_row ::
  "string \<Rightarrow> UpdateResultsItem list \<Rightarrow> CriterionResult \<Rightarrow> CriterionResult" where
  "rewrite_row uniqueId items r =
     fold (\<lambda>item r. if result_matches uniqueId item r then write_item item r else r) items r"

text \<open>
  The words of the specification for the report: the group of a (topic, criterion) pair
  is the list of the results with that pair; a group is applicable when some result in
  it is not "not applicable", and compliant when it is applicable and each of its results
  is "compliant" or "not applicable".
\<close>

definition criterion_key :: "CriterionResult \<Rightarrow> int \<times> int" where
  "criterion_key r = (cr_topic r, cr_criterium r)"

definition criterion_group :: "CriterionResult list \<Rightarrow> int \<times> int \<Rightarrow> CriterionResult list" where
  "criterion_group results k = filter (\<lambda>r. criterion_key r = k) results"

definition group_applicable :: "CriterionResult list \<Rightarrow> bool" where
  "group_applicable g \<longleftrightarrow> (\<exists>r\<in>set g. cr_status r \<noteq> NOT_APPLICABLE)"

definition group_compliant :: "CriterionResult list \<Rightarrow> bool" where
  "group_compliant g \<longleftrightarrow>
     group_applicable g \<and> (\<forall>r\<in>set g. cr_status r = COMPLIANT \<or> cr_status r = NOT_APPLICABLE)"

definition applicable_count :: "CriterionResult list \<Rightarrow> nat" where
  "applicable_count results =
     card {k \<in> criterion_key ` set results. group_applicable (criterion_group results k)}"

definition compliant_count :: "CriterionResult list \<Rightarrow> nat" where
  "compliant_count results =
     card {k \<in> criterion_key ` set results. group_compliant (criterion_group results k)}"


section \<open>Sample data\<close>

definition empty_db :: db where
  "empty_db =
     \<lparr>audits = [], recipents = [], tools = [], environments = [], auditedPages = [],
      criterionResults = [], auditTraces = [], nextId = 1\<rparr>"

definition sample_audit :: Audit where
  "sample_audit =
     \<lparr>audit_id = 2,
      audit_editUniqueId = ''edit-1'',
      audit_consultUniqueId = ''consult-1'',
      audit_procedureName = ''Demarche'',
      audit_procedureUrl = ''https://example.org'',
      audit_initiator = ''Ministere'',
      audit_auditorEmail = ''auditor@example.org'',
      audit_auditorName = ''Auditor'',
      audit_contactName = ''Contact'',
      audit_contactEmail = None,
      audit_contactFormUrl = None,
      audit_technologies = [''HTML''],
      audit_auditType = Some FULL,
      audit_notCompliantContent = None,
      audit_derogatedContent = None,
      audit_notInScopeContent = None,
      audit_publicationDate = None,
      audit_editionDate = None,
      audit_auditTraceId = 1\<rparr>"

definition sample_trace :: AuditTrace where
  "sample_trace =
     \<lparr>trace_id = 1, trace_auditEditUniqueId = ''edit-1'',
      trace_auditConsultUniqueId = ''consult-1''\<rparr>"

definition home_page :: AuditedPage where
  "home_page =
     \<lparr>page_id = 3, page_name = ''Home'', page_url = ''https://example.org/'',
      page_auditUniqueId = ''edit-1''\<rparr>"

text \<open>A draft audit with one page and no result row.\<close>

definition db_one_page :: db where
  "db_one_page =
     \<lparr>audits = [sample_audit], recipents = [], tools = [], environments = [],
      auditedPages = [home_page], criterionResults = [],
      auditTraces = [sample_trace], nextId = 4\<rparr>"

definition sample_result :: "nat \<Rightarrow> int \<Rightarrow> int \<Rightarrow> CriterionResultStatus \<Rightarrow> CriterionResult" where
  "sample_result i t c st =
     \<lparr>cr_id = i, cr_status = st, cr_compliantComment = None, cr_errorDescription = None,
      cr_userImpact = None, cr_recommandation = None, cr_notApplicableComment = None,
      cr_topic = t, cr_criterium = c, cr_pageUrl = ''https://example.org/'',
      cr_auditUniqueId = ''edit-1''\<rparr>"

text \<open>The same audit with criterion 1.1 compliant and criterion 1.2 still not tested.\<close>

definition db_two_results :: db where
  "db_two_results =
     db_one_page\<lparr>criterionResults := [sample_result 4 1 1 COMPLIANT,
                                          sample_result 5 1 2 NOT_TESTED],
                  nextId := 6\<rparr>"

definition two_criteria :: "Criterion list" where
  "two_criteria =
     [\<lparr>criterion_topic = 1, criterion_criterium = 1\<rparr>,
      \<lparr>criterion_topic = 1, criterion_criterium = 2\<rparr>]"

definition sample_create :: CreateAuditDto where
  "sample_create =
     \<lparr>c_procedureName = ''Demarche'',
      c_procedureUrl = ''https://example.org'',
      c_initiator = ''Ministere'',
      c_auditorEmail = ''auditor@example.org'',
      c_auditorName = ''Auditor'',
      c_contactName = ''Contact'',
      c_contactEmail = None,
      c_contactFormUrl = None,
      c_technologies = [''HTML''],
      c_recipients = [\<lparr>rdto_name = ''Reader'', rdto_email = ''reader@example.org''\<rparr>]\<rparr>"

text \<open>
  The audit with one stored tool, and a full replacement payload that keeps the home
  page and names two tools.  The stored tool is neither of the two: it shares its name
  and url with the first and its function with the second.
\<close>

definition stale_tool :: Tool where
  "stale_tool =
     \<lparr>tool_id = 4, tool_name = ''axe'', tool_function = ''contrast'',
      tool_url = ''https://axe.example'', tool_auditUniqueId = ''edit-1''\<rparr>"

definition db_stale_tool :: db where
  "db_stale_tool = db_one_page\<lparr>tools := [stale_tool], nextId := 5\<rparr>"

definition two_tools_payload :: UpdateAuditDto where
  "two_tools_payload =
     \<lparr>u_procedureName = ''Demarche'',
      u_procedureUrl = ''https://example.org'',
      u_initiator = ''Ministere'',
      u_auditorEmail = ''auditor@example.org'',
      u_auditorName = ''Auditor'',
      u_contactName = ''Contact'',
      u_contactEmail = None,
      u_contactFormUrl = None,
      u_recipients = [],
      u_auditType = FULL,
      u_tools =
        [\<lparr>tdto_name = ''axe'', tdto_function = ''automated checks'',
          tdto_url = ''https://axe.example''\<rparr>,
         \<lparr>tdto_name = ''wave'', tdto_function = ''contrast'',
          tdto_url = ''https://wave.example''\<rparr>],
      u_environments = [],
      u_pages = [\<lparr>updto_id = Some 3, updto_name = ''Home'',
                  updto_url = ''https://example.org/''\<rparr>],
      u_notCompliantContent = None,
      u_derogatedContent = None,
      u_notInScopeContent = None\<rparr>"


definition sample_item :: "string \<Rightarrow> int \<Rightarrow> int \<Rightarrow> CriterionResultStatus \<Rightarrow> UpdateResultsItem" where
  "sample_item u t c st =
     \<lparr>item_pageUrl = u, item_topic = t, item_criterium = c, item_status = st,
      item_compliantComment = None, item_errorDescription = None,
      item_notApplicableComment = None, item_recommandation = None,
      item_userImpact = None\<rparr>"

text \<open>The audit of the samples, published at time 500.\<close>

definition db_published :: db where
  "db_published =
     db_one_page\<lparr>audits := [sample_audit\<lparr>audit_publicationDate := Some 500\<rparr>]\<rparr>"

text \<open>
  Ten applicable criteria of which seven are compliant, and one criterion that is not
  applicable; then forty applicable criteria of which twenty-three are compliant.
\<close>

definition ten_groups :: "CriterionResult list" where
  "ten_groups =
     [sample_result 4 1 1 COMPLIANT, sample_result 5 1 2 COMPLIANT,
      sample_result 6 1 3 COMPLIANT, sample_result 7 1 4 COMPLIANT,
      sample_result 8 1 5 COMPLIANT, sample_result 9 1 6 COMPLIANT,
      sample_result 10 1 7 COMPLIANT, sample_result 11 2 1 NOT_COMPLIANT,
      sample_result 12 2 2 NOT_COMPLIANT, sample_result 13 2 3 NOT_COMPLIANT,
      sample_result 14 3 1 NOT_APPLICABLE]"

definition db_ten_groups :: db where
  "db_ten_groups = db_one_page\<lparr>criterionResults := ten_groups, nextId := 15\<rparr>"

definition forty_groups :: "CriterionResult list" where
  "forty_groups =
     map (\<lambda>i. sample_result (4 + i) 1 (int i)
                (if i < 23 then COMPLIANT else NOT_COMPLIANT)) [0..<40]"

definition db_forty_groups :: db where
  "db_forty_groups = db_one_page\<lparr>criterionResults := forty_groups, nextId := 44\<rparr>"



text \<open>A payload that keeps the home page and updates a page with an id no page has.\<close>

definition unknown_page_id_payload :: UpdateAuditDto where
  "unknown_page_id_payload =
     two_tools_payload
       \<lparr>u_pages := [\<lparr>updto_id = Some 3, updto_name = ''Home'',
                     updto_url = ''https://example.org/''\<rparr>,
                    \<lparr>updto_id = Some 999, updto_name = ''Contact'',
                     updto_url = ''https://example.org/contact''\<rparr>]\<rparr>"

section \<open>Properties\<close>

subsection \<open>Completion check and publication\<close>


text \<open>
  Claim C5.  The completion check holds exactly when no stored result row of the audit
  has the status "not tested"; in particular it holds for an audit without any stored
  row, whatever its pages and however many (page, criterion) pairs the results fetch
  then has to fill with "not tested" placeholders.
\<close>

theorem completion_check_counts_stored_rows_only:
  "(isAuditComplete d uniqueId \<longleftrightarrow>
      \<not> (\<exists>r\<in>set (criterionResults d).
             cr_auditUniqueId r = uniqueId \<and> cr_status r = NOT_TESTED))
   \<and> ((\<forall>r\<in>set (criterionResults d). cr_auditUniqueId r \<noteq> uniqueId)
        \<longrightarrow> isAuditComplete d uniqueId)"
  by (auto simp: isAuditComplete_def filter_empty_conv)

theorem completion_check_counts_stored_rows_only_witness:
  "criterionResults db_one_page = []
   \<and> isAuditComplete db_one_page ''edit-1''
   \<and> getResultsWithEditUniqueId two_criteria db_one_page ''edit-1'' =
       [Placeholder \<lparr>ph_status = NOT_TESTED, ph_compliantComment = None,
          ph_errorDescription = None, ph_userImpact = None, ph_recommandation = None,
          ph_notApplicableComment = None, ph_topic = 1, ph_criterium = 1,
          ph_pageUrl = ''https://example.org/''\<rparr>,
        Placeholder \<lparr>ph_status = NOT_TESTED, ph_compliantComment = None,
          ph_errorDescription = None, ph_userImpact = None, ph_recommandation = None,
          ph_notApplicableComment = None, ph_topic = 1, ph_criterium = 2,
          ph_pageUrl = ''https://example.org/''\<rparr>]
   \<and> \<not> isAuditComplete db_two_results ''edit-1''"
  using completion_check_counts_stored_rows_only [of db_one_page "''edit-1''"]
    completion_check_counts_stored_rows_only [of db_two_results "''edit-1''"]
  by (simp add: db_one_page_def db_two_results_def sample_result_def home_page_def
      getResultsWithEditUniqueId_def results_of_audit_pages_def result_or_placeholder_def
      two_criteria_def)

lemma find_audit_None:
  "find (\<lambda>a. audit_editUniqueId a = uniqueId) (audits d) = None \<longleftrightarrow>
     \<not> (\<exists>a\<in>set (audits d). audit_editUniqueId a = uniqueId)"
  by (auto simp: find_None_iff)







subsection \<open>The results matrix\<close>

lemma length_concat_map_map:
  "length (concat (map (\<lambda>p. map (f p) cs) ps)) = length ps * length cs"
  by (induction ps) simp_all

lemma nth_concat_map_map:
  "i < length ps \<Longrightarrow> j < length cs \<Longrightarrow>
     concat (map (\<lambda>p. map (f p) cs) ps) ! (i * length cs + j) = f (ps ! i) (cs ! j)"
proof (induction ps arbitrary: i)
  case Nil
  then show ?case by simp
next
  case (Cons p ps)
  show ?case
  proof (cases i)
    case 0
    with Cons.prems show ?thesis by (simp add: nth_append)
  next
    case (Suc k)
    with Cons.prems have "k < length ps" by simp
    from Cons.IH [OF this Cons.prems(2)] Suc show ?thesis
      by (simp add: nth_append)
  qed
qed

lemma results_of_audit_pages_iff:
  assumes "page \<in> set (auditedPages d)" and "page_auditUniqueId page = uniqueId"
    and "cr_pageUrl r = page_url page"
  shows "r \<in> set (results_of_audit_pages d uniqueId) \<longleftrightarrow>
           r \<in> set (criterionResults d) \<and> cr_auditUniqueId r = uniqueId"
  using assms by (auto simp: results_of_audit_pages_def list_ex_iff)

lemma result_or_placeholder_existing:
  assumes "page \<in> set (auditedPages d)" and "page_auditUniqueId page = uniqueId"
    and "\<exists>r\<in>set (criterionResults d). cr_auditUniqueId r = uniqueId
           \<and> cr_pageUrl r = page_url page \<and> cr_topic r = criterion_topic criterion
           \<and> cr_criterium r = criterion_criterium criterion"
  shows "\<exists>r\<in>set (criterionResults d). cr_auditUniqueId r = uniqueId
           \<and> cr_pageUrl r = page_url page \<and> cr_topic r = criterion_topic criterion
           \<and> cr_criterium r = criterion_criterium criterion
           \<and> result_or_placeholder (results_of_audit_pages d uniqueId) page criterion
               = Existing r"
proof -
  let ?P = "\<lambda>result. cr_pageUrl result = page_url page
              \<and> cr_topic result = criterion_topic criterion
              \<and> cr_criterium result = criterion_criterium criterion"
  from assms(3) obtain r0 where r0: "r0 \<in> set (criterionResults d)"
    "cr_auditUniqueId r0 = uniqueId" "?P r0"
    by blast
  then have "r0 \<in> set (results_of_audit_pages d uniqueId)"
    using results_of_audit_pages_iff [OF assms(1,2), of r0] by simp
  with r0(3) have "find ?P (results_of_audit_pages d uniqueId) \<noteq> None"
    by (auto simp: find_None_iff)
  then obtain r where r: "find ?P (results_of_audit_pages d uniqueId) = Some r"
    by blast
  then have "r \<in> set (results_of_audit_pages d uniqueId)" and p: "?P r"
    by (auto simp: find_Some_iff)
  then have "r \<in> set (criterionResults d)" "cr_auditUniqueId r = uniqueId"
    using results_of_audit_pages_iff [OF assms(1,2), of r] by simp_all
  with p r show ?thesis
    by (auto simp: result_or_placeholder_def)
qed

lemma result_or_placeholder_missing:
  assumes "page \<in> set (auditedPages d)" and "page_auditUniqueId page = uniqueId"
    and "\<not> (\<exists>r\<in>set (criterionResults d). cr_auditUniqueId r = uniqueId
           \<and> cr_pageUrl r = page_url page \<and> cr_topic r = criterion_topic criterion
           \<and> cr_criterium r = criterion_criterium criterion)"
  shows "result_or_placeholder (results_of_audit_pages d uniqueId) page criterion =
           Placeholder
             \<lparr>ph_status = NOT_TESTED, ph_compliantComment = None, ph_errorDescription = None,
              ph_userImpact = None, ph_recommandation = None, ph_notApplicableComment = None,
              ph_topic = criterion_topic criterion,
              ph_criterium = criterion_criterium criterion,
              ph_pageUrl = page_url page\<rparr>"
proof -
  let ?P = "\<lambda>result. cr_pageUrl result = page_url page
              \<and> cr_topic result = criterion_topic criterion
              \<and> cr_criterium result = criterion_criterium criterion"
  have "find ?P (results_of_audit_pages d uniqueId) = None"
    unfolding find_None_iff
  proof
    assume "\<exists>r. r \<in> set (results_of_audit_pages d uniqueId) \<and> ?P r"
    then obtain r where "r \<in> set (results_of_audit_pages d uniqueId)" "?P r" by blast
    then have "r \<in> set (criterionResults d) \<and> cr_auditUniqueId r = uniqueId \<and> ?P r"
      using results_of_audit_pages_iff [OF assms(1,2), of r] by simp
    with assms(3) show False by blast
  qed
  then show ?thesis by (simp add: result_or_placeholder_def)
qed

text \<open>
  Claim C3.  The results fetch returns one entry for every pair of a page of the audit
  and a criterion of the catalog, page by page in catalog order, so page-count times
  catalog-size entries.  The entry of a pair is a stored row of the audit with that page
  url, topic and criterion number when such a row exists; otherwise it is the placeholder
  with status "not tested", null comments, and the topic, criterion and page url of the
  pair.
\<close>

theorem results_fetch_is_full_matrix:
  "let pages = filter (\<lambda>p. page_auditUniqueId p = uniqueId) (auditedPages d);
       entries = getResultsWithEditUniqueId CRITERIA d uniqueId
   in length entries = length pages * length CRITERIA
      \<and> (\<forall>i<length pages. \<forall>j<length CRITERIA.
           if \<exists>r\<in>set (criterionResults d). cr_auditUniqueId r = uniqueId
                \<and> cr_pageUrl r = page_url (pages ! i)
                \<and> cr_topic r = criterion_topic (CRITERIA ! j)
                \<and> cr_criterium r = criterion_criterium (CRITERIA ! j)
           then \<exists>r\<in>set (criterionResults d). cr_auditUniqueId r = uniqueId
                \<and> cr_pageUrl r = page_url (pages ! i)
                \<and> cr_topic r = criterion_topic (CRITERIA ! j)
                \<and> cr_criterium r = criterion_criterium (CRITERIA ! j)
                \<and> entries ! (i * length CRITERIA + j) = Existing r
           else entries ! (i * length CRITERIA + j) =
                  Placeholder
                    \<lparr>ph_status = NOT_TESTED, ph_compliantComment = None,
                     ph_errorDescription = None, ph_userImpact = None,
                     ph_recommandation = None, ph_notApplicableComment = None,
                     ph_topic = criterion_topic (CRITERIA ! j),
                     ph_criterium = criterion_criterium (CRITERIA ! j),
                     ph_pageUrl = page_url (pages ! i)\<rparr>)"
proof -
  define pages where "pages = filter (\<lambda>p. page_auditUniqueId p = uniqueId) (auditedPages d)"
  define existing where "existing = results_of_audit_pages d uniqueId"
  have entries: "getResultsWithEditUniqueId CRITERIA d uniqueId =
      concat (map (\<lambda>page. map (result_or_placeholder existing page) CRITERIA) pages)"
    by (simp add: getResultsWithEditUniqueId_def pages_def existing_def)
  have len: "length (getResultsWithEditUniqueId CRITERIA d uniqueId)
      = length pages * length CRITERIA"
    unfolding entries by (rule length_concat_map_map)
  have cell: "getResultsWithEditUniqueId CRITERIA d uniqueId ! (i * length CRITERIA + j) =
      result_or_placeholder existing (pages ! i) (CRITERIA ! j)"
    if "i < length pages" "j < length CRITERIA" for i j
    unfolding entries using that by (rule nth_concat_map_map)
  have page: "pages ! i \<in> set (auditedPages d) \<and> page_auditUniqueId (pages ! i) = uniqueId"
    if "i < length pages" for i
  proof -
    from that have "pages ! i \<in> set pages" by simp
    then show ?thesis by (simp add: pages_def)
  qed
  show ?thesis
    unfolding Let_def pages_def [symmetric]
  proof (intro conjI allI impI)
    show "length (getResultsWithEditUniqueId CRITERIA d uniqueId)
        = length pages * length CRITERIA"
      by (rule len)
  next
    fix i j
    assume i: "i < length pages" and j: "j < length CRITERIA"
    note pg = page [OF i]
    show "if \<exists>r\<in>set (criterionResults d). cr_auditUniqueId r = uniqueId
                \<and> cr_pageUrl r = page_url (pages ! i)
                \<and> cr_topic r = criterion_topic (CRITERIA ! j)
                \<and> cr_criterium r = criterion_criterium (CRITERIA ! j)
           then \<exists>r\<in>set (criterionResults d). cr_auditUniqueId r = uniqueId
                \<and> cr_pageUrl r = page_url (pages ! i)
                \<and> cr_topic r = criterion_topic (CRITERIA ! j)
                \<and> cr_criterium r = criterion_criterium (CRITERIA ! j)
                \<and> getResultsWithEditUniqueId CRITERIA d uniqueId ! (i * length CRITERIA + j)
                    = Existing r
           else getResultsWithEditUniqueId CRITERIA d uniqueId ! (i * length CRITERIA + j) =
                  Placeholder
                    \<lparr>ph_status = NOT_TESTED, ph_compliantComment = None,
                     ph_errorDescription = None, ph_userImpact = None,
                     ph_recommandation = None, ph_notApplicableComment = None,
                     ph_topic = criterion_topic (CRITERIA ! j),
                     ph_criterium = criterion_criterium (CRITERIA ! j),
                     ph_pageUrl = page_url (pages ! i)\<rparr>"
    proof (cases "\<exists>r\<in>set (criterionResults d). cr_auditUniqueId r = uniqueId
                \<and> cr_pageUrl r = page_url (pages ! i)
                \<and> cr_topic r = criterion_topic (CRITERIA ! j)
                \<and> cr_criterium r = criterion_criterium (CRITERIA ! j)")
      case True
      from result_or_placeholder_existing [OF conjunct1 [OF pg] conjunct2 [OF pg] True] True
      show ?thesis
        unfolding cell [OF i j] existing_def by simp
    next
      case False
      from result_or_placeholder_missing [OF conjunct1 [OF pg] conjunct2 [OF pg] False] False
      show ?thesis
        unfolding cell [OF i j] existing_def by simp
    qed
  qed
qed

theorem results_fetch_is_full_matrix_witness:
  "length (getResultsWithEditUniqueId two_criteria db_one_page ''edit-1'') = 1 * 2
   \<and> getResultsWithEditUniqueId two_criteria db_one_page ''edit-1'' ! (0 * 2 + 1) =
       Placeholder
         \<lparr>ph_status = NOT_TESTED, ph_compliantComment = None,
          ph_errorDescription = None, ph_userImpact = None,
          ph_recommandation = None, ph_notApplicableComment = None,
          ph_topic = 1, ph_criterium = 2, ph_pageUrl = ''https://example.org/''\<rparr>
   \<and> getResultsWithEditUniqueId two_criteria db_two_results ''edit-1'' =
       [Existing (sample_result 4 1 1 COMPLIANT), Existing (sample_result 5 1 2 NOT_TESTED)]"
proof -
  have pages: "filter (\<lambda>p. page_auditUniqueId p = ''edit-1'') (auditedPages db_one_page)
      = [home_page]"
    by (simp add: db_one_page_def home_page_def)
  note matrix = results_fetch_is_full_matrix [of "''edit-1''" db_one_page two_criteria,
      unfolded Let_def pages]
  have i: "0 < length [home_page]" and j: "1 < length two_criteria"
    by (simp_all add: two_criteria_def)
  from conjunct1 [OF matrix]
  have "length (getResultsWithEditUniqueId two_criteria db_one_page ''edit-1'') = 1 * 2"
    by (simp add: two_criteria_def)
  moreover from conjunct2 [OF matrix, rule_format, OF i j]
  have "getResultsWithEditUniqueId two_criteria db_one_page ''edit-1'' ! (0 * 2 + 1) =
       Placeholder
         \<lparr>ph_status = NOT_TESTED, ph_compliantComment = None,
          ph_errorDescription = None, ph_userImpact = None,
          ph_recommandation = None, ph_notApplicableComment = None,
          ph_topic = 1, ph_criterium = 2, ph_pageUrl = ''https://example.org/''\<rparr>"
    by (simp add: db_one_page_def two_criteria_def home_page_def)
  moreover have "getResultsWithEditUniqueId two_criteria db_two_results ''edit-1'' =
     [Existing (sample_result 4 1 1 COMPLIANT), Existing (sample_result 5 1 2 NOT_TESTED)]"
    by (simp add: db_one_page_def db_two_results_def sample_result_def home_page_def
      getResultsWithEditUniqueId_def results_of_audit_pages_def result_or_placeholder_def
      two_criteria_def)
  ultimately show ?thesis by blast
qed

subsection \<open>Tokens without an audit\<close>

lemma getAudit_None_iff:
  "getAuditWithEditUniqueId d uniqueId = None \<longleftrightarrow>
     \<not> (\<exists>a\<in>set (audits d). audit_editUniqueId a = uniqueId)"
  by (simp add: getAuditWithEditUniqueId_def find_audit_None)

lemma sendAuditNotFoundStatus_iff:
  "sendAuditNotFoundStatus d uniqueId =
     (if \<exists>t\<in>set (auditTraces d). trace_auditEditUniqueId t = uniqueId
      then GoneException else NotFoundException)"
  by (simp add: sendAuditNotFoundStatus_def checkIfAuditWasDeleted_def list_ex_iff)






lemma no_pages_without_audit:
  assumes "pages_belong_to_audits d" and "getAuditWithEditUniqueId d uniqueId = None"
  shows "filter (\<lambda>p. page_auditUniqueId p = uniqueId) (auditedPages d) = []"
  using assms
  by (auto simp: pages_belong_to_audits_def getAudit_None_iff list_all_iff list_ex_iff
      filter_empty_conv)

text \<open>The operations keep every page attached to an audit.\<close>

lemma createAudit_pages_belong:
  assumes "pages_belong_to_audits d" and "createAudit d e c data = Inr (a, d')"
  shows "pages_belong_to_audits d'"
  using assms
  by (auto simp: createAudit_def pages_belong_to_audits_def Let_def list_all_iff list_ex_iff
      split: if_splits)

lemma deleteAudit_pages_belong:
  assumes "pages_belong_to_audits d" and "deleteAudit d uniqueId = Inr (b, d')"
  shows "pages_belong_to_audits d'"
  using assms
  by (auto simp: deleteAudit_def prisma_audit_delete_def pages_belong_to_audits_def
      list_all_iff list_ex_iff split: if_splits sum.splits) metis

lemma deleteAudit_removes_audit:
  assumes "deleteAudit d uniqueId = Inr (b, d')"
  shows "getAuditWithEditUniqueId d' uniqueId = None"
  using assms
  by (auto simp: deleteAudit_def prisma_audit_delete_def getAudit_None_iff list_ex_iff
      split: if_splits sum.splits)

text \<open>
  Claim C10.  The results operation always answers with the array computed by the
  service, never with Not Found or Gone; and for a token without an audit, in a database
  whose pages all belong to audits, that array is empty.
\<close>

theorem results_fetch_of_token_without_audit_is_empty:
  "AuditsController_getAuditResults CRITERIA d uniqueId
     = Inr (getResultsWithEditUniqueId CRITERIA d uniqueId)
   \<and> (pages_belong_to_audits d \<and> getAuditWithEditUniqueId d uniqueId = None \<longrightarrow>
        getResultsWithEditUniqueId CRITERIA d uniqueId = []
        \<and> AuditsController_getAuditResults CRITERIA d uniqueId = Inr [])"
proof (intro conjI impI)
  show c: "AuditsController_getAuditResults CRITERIA d uniqueId
     = Inr (getResultsWithEditUniqueId CRITERIA d uniqueId)"
    by (simp add: AuditsController_getAuditResults_def js_truthy_array_def)
  assume "pages_belong_to_audits d \<and> getAuditWithEditUniqueId d uniqueId = None"
  then have "filter (\<lambda>p. page_auditUniqueId p = uniqueId) (auditedPages d) = []"
    using no_pages_without_audit by blast
  then show e: "getResultsWithEditUniqueId CRITERIA d uniqueId = []"
    by (simp add: getResultsWithEditUniqueId_def)
  show "AuditsController_getAuditResults CRITERIA d uniqueId = Inr []"
    using c e by simp
qed

theorem results_fetch_of_token_without_audit_is_empty_witness:
  "pages_belong_to_audits empty_db
   \<and> getAuditWithEditUniqueId empty_db ''never-issued'' = None
   \<and> getResultsWithEditUniqueId two_criteria empty_db ''never-issued'' = []
   \<and> AuditsController_getAuditResults two_criteria empty_db ''never-issued'' = Inr []"
proof -
  have h: "pages_belong_to_audits empty_db
     \<and> getAuditWithEditUniqueId empty_db ''never-issued'' = None"
    by (simp add: pages_belong_to_audits_def empty_db_def getAuditWithEditUniqueId_def)
  with results_fetch_of_token_without_audit_is_empty [of two_criteria empty_db "''never-issued''"]
  show ?thesis by blast
qed

text \<open>
  Claim C6, at the input where the code departs from it.  An audit is created and then
  deleted.  Its trace row remains, and reading the audit by its edit token ends with
  Gone, by a token never issued with Not Found.  Asking for the results by either token
  ends with neither: the answer is the empty array.
\<close>

theorem results_fetch_collapses_gone_and_not_found:
  "\<exists>audit d1 d2.
     createAudit empty_db ''edit-1'' ''consult-1'' sample_create = Inr (audit, d1)
     \<and> AuditsController_deleteAudit d1 ''edit-1'' = (Inr (), d2)
     \<and> getAuditWithEditUniqueId d2 ''edit-1'' = None
     \<and> getAuditWithEditUniqueId d2 ''never-issued'' = None
     \<and> AuditsController_getAudit d2 ''edit-1'' = Inl GoneException
     \<and> AuditsController_getAudit d2 ''never-issued'' = Inl NotFoundException
     \<and> AuditsController_getAuditResults two_criteria d2 ''edit-1'' = Inr []
     \<and> AuditsController_getAuditResults two_criteria d2 ''never-issued'' = Inr []"
  by (simp add: createAudit_def empty_db_def sample_create_def Let_def new_recipent_def
      include_of_def AuditsController_deleteAudit_def deleteAudit_def prisma_audit_delete_def
      getAuditWithEditUniqueId_def AuditsController_getAudit_def sendAuditNotFoundStatus_def
      checkIfAuditWasDeleted_def AuditsController_getAuditResults_def js_truthy_array_def
      getResultsWithEditUniqueId_def)

subsection \<open>Reconciliation of the nested collections\<close>

text \<open>
  Claim C1, at an input where the code departs from it.  The update succeeds, and the
  audit then has three tools: the two of the payload and the stored one, whose key
  (name, function, url) is not in the payload.  It is not deleted because each of its
  three fields, taken alone, occurs somewhere in the payload.
\<close>

theorem update_keeps_tool_absent_from_payload:
  "\<exists>audit d'.
     updateAudit db_stale_tool ''edit-1'' two_tools_payload 1000 = Inr (Some audit, d')
     \<and> map (\<lambda>t. (tool_name t, tool_function t, tool_url t)) (inc_tools audit) =
         [(''axe'', ''contrast'', ''https://axe.example''),
          (''axe'', ''automated checks'', ''https://axe.example''),
          (''wave'', ''contrast'', ''https://wave.example'')]
     \<and> inc_tools audit = tools d'
     \<and> (''axe'', ''contrast'', ''https://axe.example'')
          \<notin> set (map (\<lambda>t. (tdto_name t, tdto_function t, tdto_url t))
                   (u_tools two_tools_payload))"
proof -
  have run: "map_sum id
      (\<lambda>(a, d'). map_option (\<lambda>audit. map (\<lambda>t. (tool_name t, tool_function t, tool_url t))
                                       (inc_tools audit)) a)
      (updateAudit db_stale_tool ''edit-1'' two_tools_payload 1000) =
    Inr (Some [(''axe'', ''contrast'', ''https://axe.example''),
               (''axe'', ''automated checks'', ''https://axe.example''),
               (''wave'', ''contrast'', ''https://wave.example'')])"
    by code_simp
  have same: "map_sum id (\<lambda>(a, d'). map_option inc_tools a = Some (tools d'))
      (updateAudit db_stale_tool ''edit-1'' two_tools_payload 1000) = Inr True"
    by code_simp
  have absent: "(''axe'', ''contrast'', ''https://axe.example'')
          \<notin> set (map (\<lambda>t. (tdto_name t, tdto_function t, tdto_url t))
                   (u_tools two_tools_payload))"
    by (simp add: two_tools_payload_def)
  show ?thesis
  proof (cases "updateAudit db_stale_tool ''edit-1'' two_tools_payload 1000")
    case (Inl e)
    with run show ?thesis by simp
  next
    case (Inr x)
    obtain a d' where x: "x = (a, d')" by (cases x)
    with run Inr obtain audit where a: "a = Some audit" by (cases a) auto
    have u: "updateAudit db_stale_tool ''edit-1'' two_tools_payload 1000 = Inr (Some audit, d')"
      unfolding Inr x a by (rule refl)
    have t: "inc_tools audit = tools d'"
      using same unfolding Inr x a by simp
    have m: "map (\<lambda>t. (tool_name t, tool_function t, tool_url t)) (inc_tools audit) =
         [(''axe'', ''contrast'', ''https://axe.example''),
          (''axe'', ''automated checks'', ''https://axe.example''),
          (''wave'', ''contrast'', ''https://wave.example'')]"
      using run unfolding Inr x a by simp
    show ?thesis
      by (rule exI [of _ audit], rule exI [of _ d']) (intro conjI u m t absent)
  qed
qed

text \<open>
  The sibling path: for the recipients, whose key is the single field \<^verbatim>\<open>email\<close>, the same
  delete-then-upsert leaves the audit with exactly the emails of the payload.
\<close>

lemma recipient_upsert_emails:
  "recipent_email ` {r \<in> set (recipents (recipient_upsert uniqueId d x)).
                      recipent_auditUniqueId r = uniqueId}
     = insert (rdto_email x)
         (recipent_email ` {r \<in> set (recipents d). recipent_auditUniqueId r = uniqueId})"
proof (cases "list_ex (\<lambda>r. recipent_auditUniqueId r = uniqueId
                         \<and> recipent_email r = rdto_email x) (recipents d)")
  case True
  define f :: "Recipent \<Rightarrow> Recipent" where
    "f = (\<lambda>r. if recipent_auditUniqueId r = uniqueId \<and> recipent_email r = rdto_email x
               then r\<lparr>recipent_name := rdto_name x, recipent_email := rdto_email x\<rparr>
               else r)"
  have f: "recipent_email (f r) = recipent_email r"
    "recipent_auditUniqueId (f r) = recipent_auditUniqueId r" for r
    by (simp_all add: f_def)
  from True have rows: "recipents (recipient_upsert uniqueId d x) = map f (recipents d)"
    by (simp add: recipient_upsert_def f_def)
  have "recipent_email ` {r \<in> set (map f (recipents d)). recipent_auditUniqueId r = uniqueId}
      = recipent_email ` {r \<in> set (recipents d). recipent_auditUniqueId r = uniqueId}"
  proof (intro equalityI subsetI)
    fix e
    assume "e \<in> recipent_email ` {r \<in> set (map f (recipents d)).
                                   recipent_auditUniqueId r = uniqueId}"
    then obtain r where "r \<in> set (recipents d)" "recipent_auditUniqueId (f r) = uniqueId"
      "e = recipent_email (f r)"
      by auto
    then show "e \<in> recipent_email ` {r \<in> set (recipents d). recipent_auditUniqueId r = uniqueId}"
      unfolding f by blast
  next
    fix e
    assume "e \<in> recipent_email ` {r \<in> set (recipents d). recipent_auditUniqueId r = uniqueId}"
    then obtain r where r: "r \<in> set (recipents d)" "recipent_auditUniqueId r = uniqueId"
      "e = recipent_email r"
      by auto
    then have "f r \<in> set (map f (recipents d))" "recipent_auditUniqueId (f r) = uniqueId"
      "e = recipent_email (f r)"
      unfolding f by simp_all
    then show "e \<in> recipent_email ` {r \<in> set (map f (recipents d)).
                                      recipent_auditUniqueId r = uniqueId}"
      by blast
  qed
  moreover from True have "rdto_email x \<in>
      recipent_email ` {r \<in> set (recipents d). recipent_auditUniqueId r = uniqueId}"
    unfolding list_ex_iff by force
  ultimately show ?thesis
    unfolding rows by (simp only: insert_absorb)
next
  case False
  define n where "n = new_recipent uniqueId (nextId d) x"
  have n: "recipent_email n = rdto_email x" "recipent_auditUniqueId n = uniqueId"
    by (simp_all add: n_def new_recipent_def)
  from False have rows: "recipents (recipient_upsert uniqueId d x) = recipents d @ [n]"
    by (simp add: recipient_upsert_def n_def)
  have "{r \<in> set (recipents d @ [n]). recipent_auditUniqueId r = uniqueId}
      = insert n {r \<in> set (recipents d). recipent_auditUniqueId r = uniqueId}"
    using n(2) by auto
  then show ?thesis
    unfolding rows by (simp add: n(1))
qed

lemma recipients_upserted_emails:
  "recipent_email ` {r \<in> set (recipents (foldl (recipient_upsert uniqueId) d xs)).
                      recipent_auditUniqueId r = uniqueId}
     = recipent_email ` {r \<in> set (recipents d). recipent_auditUniqueId r = uniqueId}
       \<union> set (map rdto_email xs)"
proof (induction xs arbitrary: d)
  case Nil
  then show ?case by simp
next
  case (Cons x xs)
  show ?case
    unfolding foldl_Cons Cons.IH recipient_upsert_emails by simp
qed

lemma recipients_reconciled_exactly:
  "recipent_email `
     {r \<in> set (recipents (foldl (recipient_upsert uniqueId)
                   (recipients_deleteMany uniqueId (map rdto_email xs) d) xs)).
      recipent_auditUniqueId r = uniqueId}
     = set (map rdto_email xs)"
proof -
  have "recipent_email ` {r \<in> set (recipents
            (recipients_deleteMany uniqueId (map rdto_email xs) d)).
          recipent_auditUniqueId r = uniqueId} \<subseteq> set (map rdto_email xs)"
    by (auto simp: recipients_deleteMany_def)
  then show ?thesis
    unfolding recipients_upserted_emails by blast
qed

subsection \<open>Errors of the two updates\<close>






text \<open>
  A defect beside the property: the catch's comment reads "Audit does not exist", but
  the code it tests is not that of the missing audit alone.  On an existing audit, a
  payload page whose id is the id of none of its pages makes the nested update fail
  with the same code; the failure is swallowed like a missing audit, and the
  controller, finding the trace of the existing audit, answers Gone.
\<close>

lemma unknown_page_id_is_reported_gone:
  "getAuditWithEditUniqueId db_one_page ''edit-1'' \<noteq> None
   \<and> updateAudit_transaction db_one_page ''edit-1'' unknown_page_id_payload 1000 = Inl P2025
   \<and> updateAudit db_one_page ''edit-1'' unknown_page_id_payload 1000
       = Inr (None, db_one_page)
   \<and> AuditsController_updateAudit db_one_page ''edit-1'' unknown_page_id_payload 1000
       = (Inl GoneException, db_one_page)"
proof -
  have "getAuditWithEditUniqueId db_one_page ''edit-1'' \<noteq> None"
    by (simp add: getAuditWithEditUniqueId_def db_one_page_def sample_audit_def)
  moreover have tx:
    "updateAudit_transaction db_one_page ''edit-1'' unknown_page_id_payload 1000 = Inl P2025"
    by code_simp
  moreover from tx have r: "updateAudit db_one_page ''edit-1'' unknown_page_id_payload 1000
       = Inr (None, db_one_page)"
    by (simp add: updateAudit_def updateAudit_catch_def P2025_def)
  moreover have "sendAuditNotFoundStatus db_one_page ''edit-1'' = GoneException"
    by (simp add: sendAuditNotFoundStatus_def checkIfAuditWasDeleted_def db_one_page_def
        sample_trace_def)
  with r have "AuditsController_updateAudit db_one_page ''edit-1'' unknown_page_id_payload 1000
       = (Inl GoneException, db_one_page)"
    by (simp add: AuditsController_updateAudit_def)
  ultimately show ?thesis by blast
qed

subsection \<open>Applying a batch of results twice\<close>

lemma write_item_twice [simp]: "write_item x (write_item y r) = write_item x r"
  by (simp add: write_item_def)

lemma result_matches_write_item [simp]:
  "result_matches uniqueId y r \<Longrightarrow>
     result_matches uniqueId x (write_item y r) = result_matches uniqueId x r"
  by (auto simp: result_matches_def write_item_def)

lemma result_matches_write_item_self [simp]:
  "result_matches uniqueId x r \<Longrightarrow> result_matches uniqueId x (write_item x r)"
  by simp

lemma rewrite_row_Nil [simp]: "rewrite_row uniqueId [] r = r"
  by (simp add: rewrite_row_def)

lemma rewrite_row_Cons [simp]:
  "rewrite_row uniqueId (x # xs) r =
     rewrite_row uniqueId xs (if result_matches uniqueId x r then write_item x r else r)"
  by (simp add: rewrite_row_def)

lemma rewrite_row_no_match:
  "\<not> (\<exists>x\<in>set xs. result_matches uniqueId x r) \<Longrightarrow> rewrite_row uniqueId xs r = r"
  by (induction xs) simp_all

lemma rewrite_row_overwrites:
  "\<exists>y\<in>set xs. result_matches uniqueId y r \<Longrightarrow> result_matches uniqueId x r \<Longrightarrow>
     rewrite_row uniqueId xs (write_item x r) = rewrite_row uniqueId xs r"
proof (induction xs)
  case Nil
  then show ?case by simp
next
  case (Cons y ys)
  show ?case
  proof (cases "result_matches uniqueId y r")
    case True
    with Cons.prems(2) show ?thesis by simp
  next
    case False
    with Cons.prems have "\<exists>y\<in>set ys. result_matches uniqueId y r" by simp
    from Cons.IH [OF this Cons.prems(2)] False Cons.prems(2) show ?thesis by simp
  qed
qed

text \<open>One upsert, seen from the result table.\<close>

lemma in_set_map_if:
  "r' \<in> set (map (\<lambda>r. if P r then f r else r) xs) \<longleftrightarrow>
     (\<exists>r\<in>set xs. r' = (if P r then f r else r))"
  by (simp only: set_map image_iff)

lemma result_upsert_cases:
  assumes "result_upsert uniqueId x d = Inr d'"
  obtains (update) "list_ex (result_matches uniqueId x) (criterionResults d)"
      "criterionResults d' =
         map (\<lambda>r. if result_matches uniqueId x r then write_item x r else r)
           (criterionResults d)"
    | (create) "\<not> list_ex (result_matches uniqueId x) (criterionResults d)"
      "\<exists>new. criterionResults d' = criterionResults d @ [new]
         \<and> result_matches uniqueId x new \<and> write_item x new = new"
proof (cases "list_ex (result_matches uniqueId x) (criterionResults d)")
  case True
  with assms have "criterionResults d' =
         map (\<lambda>r. if result_matches uniqueId x r then write_item x r else r)
           (criterionResults d)"
    by (simp add: result_upsert_def split: if_splits) auto
  with True show ?thesis by (rule update)
next
  case False
  with assms have "criterionResults d' = criterionResults d @
      [\<lparr>cr_id = nextId d, cr_status = item_status x,
        cr_compliantComment = item_compliantComment x,
        cr_errorDescription = item_errorDescription x,
        cr_userImpact = item_userImpact x,
        cr_recommandation = item_recommandation x,
        cr_notApplicableComment = item_notApplicableComment x,
        cr_topic = item_topic x, cr_criterium = item_criterium x,
        cr_pageUrl = item_pageUrl x, cr_auditUniqueId = uniqueId\<rparr>]"
    by (simp add: result_upsert_def split: if_splits) auto
  then have "\<exists>new. criterionResults d' = criterionResults d @ [new]
         \<and> result_matches uniqueId x new \<and> write_item x new = new"
    by (simp add: result_matches_def write_item_def)
  with False show ?thesis by (rule create)
qed

lemma result_upsert_Inr:
  assumes "result_upsert uniqueId x d = Inr d'"
  shows "list_ex (\<lambda>p. page_auditUniqueId p = uniqueId \<and> page_url p = item_pageUrl x)
           (auditedPages d)"
    and "auditedPages d' = auditedPages d"
  using assms
  by (auto simp: result_upsert_def split: if_splits)

lemma result_upsert_row_exists:
  assumes "result_upsert uniqueId x d = Inr d'"
  shows "list_ex (result_matches uniqueId x) (criterionResults d')"
  using assms
proof (cases rule: result_upsert_cases)
  case update
  from update(1) obtain r where r: "r \<in> set (criterionResults d)" "result_matches uniqueId x r"
    by (auto simp: list_ex_iff)
  then have "write_item x r \<in> set (criterionResults d')"
    unfolding update(2) in_set_map_if by force
  with r(2) show ?thesis
    unfolding list_ex_iff by (metis result_matches_write_item_self)
next
  case create
  then show ?thesis by (auto simp: list_ex_iff)
qed

lemma result_upsert_keeps_match:
  assumes "result_upsert uniqueId y d = Inr d'"
    and "list_ex (result_matches uniqueId x) (criterionResults d)"
  shows "list_ex (result_matches uniqueId x) (criterionResults d')"
proof -
  from assms(2) obtain r where r: "r \<in> set (criterionResults d)" "result_matches uniqueId x r"
    by (auto simp: list_ex_iff)
  from assms(1) show ?thesis
  proof (cases rule: result_upsert_cases)
    case update
    have "(if result_matches uniqueId y r then write_item y r else r)
        \<in> set (criterionResults d')"
      unfolding update(2) in_set_map_if using r(1) by blast
    moreover have "result_matches uniqueId x
        (if result_matches uniqueId y r then write_item y r else r)"
      using r(2) by simp
    ultimately show ?thesis
      unfolding list_ex_iff by blast
  next
    case create
    with r show ?thesis by (auto simp: list_ex_iff)
  qed
qed

lemma result_upsert_written:
  assumes "result_upsert uniqueId x d = Inr d'"
    and "r \<in> set (criterionResults d')" and "result_matches uniqueId x r"
  shows "write_item x r = r"
  using assms(1)
proof (cases rule: result_upsert_cases)
  case update
  from assms(2) obtain r0 where
    r0: "r = (if result_matches uniqueId x r0 then write_item x r0 else r0)"
    unfolding update(2) in_set_map_if by blast
  show ?thesis
  proof (cases "result_matches uniqueId x r0")
    case True
    with r0 show ?thesis by simp
  next
    case False
    with r0 assms(3) show ?thesis by simp
  qed
next
  case create
  with assms(2,3) show ?thesis
    by (auto simp: list_ex_iff)
qed

lemma result_upsert_other_rows:
  assumes "result_upsert uniqueId y d = Inr d'"
    and "r \<in> set (criterionResults d')" and "\<not> result_matches uniqueId y r"
  shows "r \<in> set (criterionResults d)"
  using assms(1)
proof (cases rule: result_upsert_cases)
  case update
  from assms(2) obtain r0 where r0: "r0 \<in> set (criterionResults d)"
    "r = (if result_matches uniqueId y r0 then write_item y r0 else r0)"
    unfolding update(2) in_set_map_if by blast
  with assms(3) show ?thesis
    by (cases "result_matches uniqueId y r0") simp_all
next
  case create
  with assms(2,3) show ?thesis by auto
qed

lemma result_upsert_existing:
  assumes "list_ex (\<lambda>p. page_auditUniqueId p = uniqueId \<and> page_url p = item_pageUrl x)
             (auditedPages d)"
    and "list_ex (result_matches uniqueId x) (criterionResults d)"
  shows "result_upsert uniqueId x d =
     Inr (d\<lparr>criterionResults :=
              map (\<lambda>r. if result_matches uniqueId x r then write_item x r else r)
                (criterionResults d)\<rparr>)"
  using assms by (simp add: result_upsert_def)

text \<open>The batch.\<close>

lemma fold_err_Cons_Inr:
  "fold_err f (x # xs) s = Inr s' \<longleftrightarrow> (\<exists>s0. f x s = Inr s0 \<and> fold_err f xs s0 = Inr s')"
  by (auto split: sum.splits)

lemma batch_pages:
  "fold_err (result_upsert uniqueId) xs d = Inr d' \<Longrightarrow> auditedPages d' = auditedPages d"
proof (induction xs arbitrary: d)
  case Nil
  then show ?case by simp
next
  case (Cons x xs)
  from Cons.prems(1) obtain d0 where "result_upsert uniqueId x d = Inr d0"
    "fold_err (result_upsert uniqueId) xs d0 = Inr d'"
    unfolding fold_err_Cons_Inr by blast
  with Cons.IH [of d0] result_upsert_Inr(2) [of uniqueId x d d0] show ?case by simp
qed

lemma batch_pages_exist:
  "fold_err (result_upsert uniqueId) xs d = Inr d' \<Longrightarrow> x \<in> set xs \<Longrightarrow>
     list_ex (\<lambda>p. page_auditUniqueId p = uniqueId \<and> page_url p = item_pageUrl x)
       (auditedPages d)"
proof (induction xs arbitrary: d)
  case Nil
  then show ?case by simp
next
  case (Cons y ys)
  from Cons.prems(1) obtain d0 where d0: "result_upsert uniqueId y d = Inr d0"
    "fold_err (result_upsert uniqueId) ys d0 = Inr d'"
    unfolding fold_err_Cons_Inr by blast
  show ?case
  proof (cases "x = y")
    case True
    with result_upsert_Inr(1) [OF d0(1)] show ?thesis by simp
  next
    case False
    with Cons.prems have "x \<in> set ys" by simp
    from Cons.IH [OF d0(2) this] result_upsert_Inr(2) [OF d0(1)] show ?thesis by simp
  qed
qed

lemma batch_keeps_match:
  "fold_err (result_upsert uniqueId) xs d = Inr d' \<Longrightarrow>
     list_ex (result_matches uniqueId x) (criterionResults d) \<Longrightarrow>
     list_ex (result_matches uniqueId x) (criterionResults d')"
proof (induction xs arbitrary: d)
  case Nil
  then show ?case by simp
next
  case (Cons y ys)
  from Cons.prems(1) obtain d0 where d0: "result_upsert uniqueId y d = Inr d0"
    "fold_err (result_upsert uniqueId) ys d0 = Inr d'"
    unfolding fold_err_Cons_Inr by blast
  from Cons.IH [OF d0(2) result_upsert_keeps_match [OF d0(1) Cons.prems(2)]]
  show ?case .
qed

lemma batch_rows_exist:
  "fold_err (result_upsert uniqueId) xs d = Inr d' \<Longrightarrow> x \<in> set xs \<Longrightarrow>
     list_ex (result_matches uniqueId x) (criterionResults d')"
proof (induction xs arbitrary: d)
  case Nil
  then show ?case by simp
next
  case (Cons y ys)
  from Cons.prems(1) obtain d0 where d0: "result_upsert uniqueId y d = Inr d0"
    "fold_err (result_upsert uniqueId) ys d0 = Inr d'"
    unfolding fold_err_Cons_Inr by blast
  show ?case
  proof (cases "x = y")
    case True
    with batch_keeps_match [OF d0(2)] result_upsert_row_exists [OF d0(1)] show ?thesis by simp
  next
    case False
    with Cons.prems have "x \<in> set ys" by simp
    from Cons.IH [OF d0(2) this] show ?thesis .
  qed
qed

lemma batch_other_rows:
  "fold_err (result_upsert uniqueId) xs d = Inr d' \<Longrightarrow> r \<in> set (criterionResults d') \<Longrightarrow>
     \<not> (\<exists>x\<in>set xs. result_matches uniqueId x r) \<Longrightarrow> r \<in> set (criterionResults d)"
proof (induction xs arbitrary: d)
  case Nil
  then show ?case by simp
next
  case (Cons y ys)
  from Cons.prems(1) obtain d0 where d0: "result_upsert uniqueId y d = Inr d0"
    "fold_err (result_upsert uniqueId) ys d0 = Inr d'"
    unfolding fold_err_Cons_Inr by blast
  from Cons.prems(3) have "\<not> (\<exists>x\<in>set ys. result_matches uniqueId x r)"
    and n: "\<not> result_matches uniqueId y r"
    by simp_all
  from Cons.IH [OF d0(2) Cons.prems(2) this(1)] have "r \<in> set (criterionResults d0)" .
  from result_upsert_other_rows [OF d0(1) this n] show ?case .
qed

text \<open>After the batch, every row is what the batch writes to it.\<close>

lemma batch_rows_written:
  "fold_err (result_upsert uniqueId) xs d = Inr d' \<Longrightarrow> r \<in> set (criterionResults d') \<Longrightarrow>
     rewrite_row uniqueId xs r = r"
proof (induction xs arbitrary: d)
  case Nil
  then show ?case by simp
next
  case (Cons y ys)
  from Cons.prems(1) obtain d0 where d0: "result_upsert uniqueId y d = Inr d0"
    "fold_err (result_upsert uniqueId) ys d0 = Inr d'"
    unfolding fold_err_Cons_Inr by blast
  note IH = Cons.IH [OF d0(2) Cons.prems(2)]
  show ?case
  proof (cases "result_matches uniqueId y r")
    case False
    with IH show ?thesis by simp
  next
    case True
    show ?thesis
    proof (cases "\<exists>x\<in>set ys. result_matches uniqueId x r")
      case True
      from rewrite_row_overwrites [OF True \<open>result_matches uniqueId y r\<close>] IH
        \<open>result_matches uniqueId y r\<close>
      show ?thesis by simp
    next
      case False
      from batch_other_rows [OF d0(2) Cons.prems(2) False]
      have "r \<in> set (criterionResults d0)" .
      from result_upsert_written [OF d0(1) this \<open>result_matches uniqueId y r\<close>]
      have "write_item y r = r" .
      with IH \<open>result_matches uniqueId y r\<close> show ?thesis by simp
    qed
  qed
qed

text \<open>On a table that already has a row for every item, the batch only rewrites rows.\<close>

lemma batch_on_existing_rows:
  assumes "\<forall>x\<in>set xs. list_ex (\<lambda>p. page_auditUniqueId p = uniqueId
                                    \<and> page_url p = item_pageUrl x) (auditedPages d)"
    and "\<forall>x\<in>set xs. list_ex (result_matches uniqueId x) (criterionResults d)"
  shows "fold_err (result_upsert uniqueId) xs d =
     Inr (d\<lparr>criterionResults := map (rewrite_row uniqueId xs) (criterionResults d)\<rparr>)"
  using assms
proof (induction xs arbitrary: d)
  case Nil
  then show ?case by simp
next
  case (Cons y ys)
  let ?d0 = "d\<lparr>criterionResults :=
              map (\<lambda>r. if result_matches uniqueId y r then write_item y r else r)
                (criterionResults d)\<rparr>"
  have step: "result_upsert uniqueId y d = Inr ?d0"
    using Cons.prems by (intro result_upsert_existing) simp_all
  have pages: "\<forall>x\<in>set ys. list_ex (\<lambda>p. page_auditUniqueId p = uniqueId
                                    \<and> page_url p = item_pageUrl x) (auditedPages ?d0)"
    using Cons.prems(1) by simp
  have rows: "\<forall>x\<in>set ys. list_ex (result_matches uniqueId x) (criterionResults ?d0)"
  proof
    fix x assume "x \<in> set ys"
    with Cons.prems(2) have "list_ex (result_matches uniqueId x) (criterionResults d)"
      by simp
    from result_upsert_keeps_match [OF step this] show
      "list_ex (result_matches uniqueId x) (criterionResults ?d0)" .
  qed
  from Cons.IH [OF pages rows] step show ?case
    by (simp add: comp_def)
qed

lemma stamp_idem:
  fixes a :: Audit
  assumes "f = (\<lambda>a. if audit_editUniqueId a = uniqueId \<and> audit_publicationDate a \<noteq> None
                then a\<lparr>audit_editionDate := Some t\<rparr> else a)"
  shows "f (f a) = f a"
proof (cases "audit_editUniqueId a = uniqueId \<and> audit_publicationDate a \<noteq> None")
  case True
  have "f a = a\<lparr>audit_editionDate := Some t\<rparr>"
    unfolding assms by (rule if_P) (rule True)
  moreover have "f (a\<lparr>audit_editionDate := Some t\<rparr>) = a\<lparr>audit_editionDate := Some t\<rparr>"
    unfolding assms by (simp del: not_None_eq)
  ultimately show ?thesis by (simp only:)
next
  case False
  have "f a = a"
    unfolding assms by (rule if_not_P) (rule False)
  then show ?thesis by (simp only:)
qed

lemma map_idem: "(\<And>a. f (f a) = f a) \<Longrightarrow> map f (map f xs) = map f xs"
  by (induction xs) simp_all

lemma updateAuditEditDate_twice:
  "updateAuditEditDate uniqueId t (updateAuditEditDate uniqueId t d)
     = updateAuditEditDate uniqueId t d"
proof -
  define f :: "Audit \<Rightarrow> Audit" where "f = (\<lambda>a. if audit_editUniqueId a = uniqueId \<and> audit_publicationDate a \<noteq> None
                then a\<lparr>audit_editionDate := Some t\<rparr> else a)"
  have "map f (map f (audits d)) = map f (audits d)"
    by (rule map_idem) (rule stamp_idem [OF f_def])
  then show ?thesis
    unfolding updateAuditEditDate_def f_def [symmetric] by simp
qed

lemma updateAuditEditDate_unpublished:
  assumes "\<not> list_ex (\<lambda>a. audit_editUniqueId a = uniqueId \<and> audit_publicationDate a \<noteq> None)
               (audits d)"
  shows "updateAuditEditDate uniqueId t d = d"
proof -
  define f :: "Audit \<Rightarrow> Audit" where "f = (\<lambda>a. if audit_editUniqueId a = uniqueId \<and> audit_publicationDate a \<noteq> None
                then a\<lparr>audit_editionDate := Some t\<rparr> else a)"
  have "f a = a" if "a \<in> set (audits d)" for a
  proof -
    from that assms
    have "\<not> (audit_editUniqueId a = uniqueId \<and> audit_publicationDate a \<noteq> None)"
      unfolding list_ex_iff by blast
    then show ?thesis
      unfolding f_def by (rule if_not_P)
  qed
  then have "map f (audits d) = audits d"
    by (rule map_idI)
  then show ?thesis
    unfolding updateAuditEditDate_def f_def [symmetric] by simp
qed

lemma second_batch:
  assumes "updateResults d uniqueId body t1 = Inr d1"
  shows "updateResults d1 uniqueId body t2 = Inr (updateAuditEditDate uniqueId t2 d1)"
proof -
  from assms obtain d' where d': "fold_err (result_upsert uniqueId) body d = Inr d'"
    and d1: "d1 = updateAuditEditDate uniqueId t1 d'"
    by (auto simp: updateResults_def split: sum.splits)
  have tables: "auditedPages d1 = auditedPages d'" "criterionResults d1 = criterionResults d'"
    by (simp_all add: d1 updateAuditEditDate_def)
  have pages: "\<forall>x\<in>set body. list_ex (\<lambda>p. page_auditUniqueId p = uniqueId
                                    \<and> page_url p = item_pageUrl x) (auditedPages d1)"
    using batch_pages_exist [OF d'] batch_pages [OF d'] tables by simp
  have rows: "\<forall>x\<in>set body. list_ex (result_matches uniqueId x) (criterionResults d1)"
    using batch_rows_exist [OF d'] tables by simp
  have "map (rewrite_row uniqueId body) (criterionResults d1) = criterionResults d1"
    using batch_rows_written [OF d'] tables by (simp add: map_idI)
  with batch_on_existing_rows [OF pages rows]
  have "fold_err (result_upsert uniqueId) body d1 = Inr d1"
    by simp
  then show ?thesis
    by (simp add: updateResults_def)
qed

text \<open>
  Claim C9, as the code has it.  When a batch has been applied, applying it again
  succeeds and changes no row of the results table, nor any other table, except that
  the audit row of a published audit gets the time of the second call as its edition
  date.  For an audit that is not published, or when both calls see the same time, the
  database after the second call is the database after the first.  A batch that fails
  fails again.
\<close>

theorem second_application_only_restamps_edition_date:
  "(updateResults d uniqueId body t1 = Inr d1 \<longrightarrow>
      (\<exists>d2. updateResults_twice d uniqueId body t1 t2 = Inr d2
         \<and> criterionResults d2 = criterionResults d1
         \<and> d2 = d1\<lparr>audits := audits d2\<rparr>
         \<and> audits d2 =
             map (\<lambda>a. if audit_editUniqueId a = uniqueId \<and> audit_publicationDate a \<noteq> None
                      then a\<lparr>audit_editionDate := Some t2\<rparr> else a) (audits d1)
         \<and> (t2 = t1 \<or> \<not> list_ex (\<lambda>a. audit_editUniqueId a = uniqueId
                                       \<and> audit_publicationDate a \<noteq> None) (audits d1)
              \<longrightarrow> d2 = d1)))
   \<and> (updateResults d uniqueId body t1 = Inl e \<longrightarrow>
        updateResults_twice d uniqueId body t1 t2 = Inl e)"
proof (intro conjI impI)
  assume first: "updateResults d uniqueId body t1 = Inr d1"
  let ?d2 = "updateAuditEditDate uniqueId t2 d1"
  have twice: "updateResults_twice d uniqueId body t1 t2 = Inr ?d2"
    by (simp add: updateResults_twice_def first second_batch [OF first])
  have same: "?d2 = d1"
    if "t2 = t1 \<or> \<not> list_ex (\<lambda>a. audit_editUniqueId a = uniqueId
                                    \<and> audit_publicationDate a \<noteq> None) (audits d1)"
    using that
  proof
    assume "t2 = t1"
    moreover from first obtain d' where "d1 = updateAuditEditDate uniqueId t1 d'"
      by (auto simp: updateResults_def split: sum.splits)
    ultimately show ?thesis
      by (simp only: updateAuditEditDate_twice)
  next
    assume "\<not> list_ex (\<lambda>a. audit_editUniqueId a = uniqueId
                          \<and> audit_publicationDate a \<noteq> None) (audits d1)"
    then show ?thesis by (rule updateAuditEditDate_unpublished)
  qed
  show "\<exists>d2. updateResults_twice d uniqueId body t1 t2 = Inr d2
         \<and> criterionResults d2 = criterionResults d1
         \<and> d2 = d1\<lparr>audits := audits d2\<rparr>
         \<and> audits d2 =
             map (\<lambda>a. if audit_editUniqueId a = uniqueId \<and> audit_publicationDate a \<noteq> None
                      then a\<lparr>audit_editionDate := Some t2\<rparr> else a) (audits d1)
         \<and> (t2 = t1 \<or> \<not> list_ex (\<lambda>a. audit_editUniqueId a = uniqueId
                                       \<and> audit_publicationDate a \<noteq> None) (audits d1)
              \<longrightarrow> d2 = d1)"
  proof (intro exI [of _ ?d2] conjI impI)
    show "updateResults_twice d uniqueId body t1 t2 = Inr ?d2" by (rule twice)
    show "?d2 = d1"
      if "t2 = t1 \<or> \<not> list_ex (\<lambda>a. audit_editUniqueId a = uniqueId
                                    \<and> audit_publicationDate a \<noteq> None) (audits d1)"
      using that by (rule same)
  qed (simp_all add: updateAuditEditDate_def del: not_None_eq)
next
  assume "updateResults d uniqueId body t1 = Inl e"
  then show "updateResults_twice d uniqueId body t1 t2 = Inl e"
    by (simp add: updateResults_twice_def)
qed

theorem second_application_only_restamps_edition_date_witness:
  "\<exists>d1. updateResults db_one_page ''edit-1''
           [sample_item ''https://example.org/'' 1 1 COMPLIANT] 1000 = Inr d1
     \<and> updateResults_twice db_one_page ''edit-1''
           [sample_item ''https://example.org/'' 1 1 COMPLIANT] 1000 2000 = Inr d1
     \<and> criterionResults d1 = [sample_result 4 1 1 COMPLIANT]"
proof -
  let ?d1 = "db_one_page\<lparr>criterionResults := [sample_result 4 1 1 COMPLIANT], nextId := 5\<rparr>"
  have first: "updateResults db_one_page ''edit-1''
           [sample_item ''https://example.org/'' 1 1 COMPLIANT] 1000 = Inr ?d1"
    by (simp add: updateResults_def result_upsert_def db_one_page_def home_page_def
        sample_item_def sample_result_def result_matches_def updateAuditEditDate_def
        sample_audit_def)
  have draft: "\<not> list_ex (\<lambda>a. audit_editUniqueId a = ''edit-1''
                            \<and> audit_publicationDate a \<noteq> None) (audits ?d1)"
    by (simp add: db_one_page_def sample_audit_def)
  from second_application_only_restamps_edition_date
    [of db_one_page "''edit-1''" "[sample_item ''https://example.org/'' 1 1 COMPLIANT]"
      1000 ?d1 2000] first draft
  have "updateResults_twice db_one_page ''edit-1''
           [sample_item ''https://example.org/'' 1 1 COMPLIANT] 1000 2000 = Inr ?d1"
    by blast
  with first show ?thesis
    by (intro exI [of _ ?d1]) simp
qed

text \<open>
  The claim as stated fails on the audit row: for a published audit the second
  application, made at a later time, leaves another edition date than the first.
\<close>

theorem second_application_changes_edition_date:
  "map_sum id (map audit_editionDate \<circ> audits)
      (updateResults db_published ''edit-1''
         [sample_item ''https://example.org/'' 1 1 COMPLIANT] 1000) = Inr [Some 1000]
   \<and> map_sum id (map audit_editionDate \<circ> audits)
      (updateResults_twice db_published ''edit-1''
         [sample_item ''https://example.org/'' 1 1 COMPLIANT] 1000 2000) = Inr [Some 2000]
   \<and> map_sum id criterionResults
      (updateResults_twice db_published ''edit-1''
         [sample_item ''https://example.org/'' 1 1 COMPLIANT] 1000 2000)
     = map_sum id criterionResults
      (updateResults db_published ''edit-1''
         [sample_item ''https://example.org/'' 1 1 COMPLIANT] 1000)
   \<and> updateResults_twice db_published ''edit-1''
         [sample_item ''https://example.org/'' 1 1 COMPLIANT] 1000 2000
     \<noteq> updateResults db_published ''edit-1''
         [sample_item ''https://example.org/'' 1 1 COMPLIANT] 1000"
proof -
  have once: "map_sum id (map audit_editionDate \<circ> audits)
      (updateResults db_published ''edit-1''
         [sample_item ''https://example.org/'' 1 1 COMPLIANT] 1000) = Inr [Some 1000]"
    by code_simp
  have twice: "map_sum id (map audit_editionDate \<circ> audits)
      (updateResults_twice db_published ''edit-1''
         [sample_item ''https://example.org/'' 1 1 COMPLIANT] 1000 2000) = Inr [Some 2000]"
    by code_simp
  have rows: "map_sum id criterionResults
      (updateResults_twice db_published ''edit-1''
         [sample_item ''https://example.org/'' 1 1 COMPLIANT] 1000 2000)
     = map_sum id criterionResults
      (updateResults db_published ''edit-1''
         [sample_item ''https://example.org/'' 1 1 COMPLIANT] 1000)"
    by code_simp
  have "updateResults_twice db_published ''edit-1''
         [sample_item ''https://example.org/'' 1 1 COMPLIANT] 1000 2000
     \<noteq> updateResults db_published ''edit-1''
         [sample_item ''https://example.org/'' 1 1 COMPLIANT] 1000"
  proof
    assume "updateResults_twice db_published ''edit-1''
         [sample_item ''https://example.org/'' 1 1 COMPLIANT] 1000 2000
     = updateResults db_published ''edit-1''
         [sample_item ''https://example.org/'' 1 1 COMPLIANT] 1000"
    with once twice show False by simp
  qed
  with once twice rows show ?thesis by blast
qed

subsection \<open>Double precision\<close>

text \<open>
  Rounding to 53 bits moves a positive number by at most half a unit in the last place,
  hence by at most the fraction \<open>2\<^sup>-\<^sup>5\<^sup>3\<close> of it.
\<close>

lemma two_powi_pos: "0 < (2::rat) powi k"
  by (simp add: zero_less_power_int)

lemma floor_log2_le:
  assumes "0 < x"
  shows "2 powi (floor_log2 x) \<le> x"
proof -
  obtain p q where pq: "quotient_of x = (p, q)" by (cases "quotient_of x")
  then have q: "0 < q" and x: "x = of_int p / of_int q"
    by (simp_all add: quotient_of_denom_pos quotient_of_div)
  with assms have p: "0 < p"
    by (simp add: zero_less_divide_iff)
  define k where "k = bitlen p - bitlen q"
  show ?thesis
  proof (cases "2 powi k \<le> x")
    case True
    then show ?thesis by (simp add: floor_log2_def pq k_def Let_def)
  next
    case False
    have bp: "1 \<le> bitlen p" and bq: "1 \<le> bitlen q"
      using p q by (simp_all add: bitlen_alt_def)
    from bitlen_bounds [OF p] have "(2::int) ^ nat (bitlen p - 1) \<le> p" by simp
    then have "(of_int ((2::int) ^ nat (bitlen p - 1)) :: rat) \<le> of_int p"
      by (simp only: of_int_le_iff)
    then have lo: "(2::rat) powi (bitlen p - 1) \<le> of_int p"
      using bp by (simp add: power_int_def)
    from bitlen_bounds [OF q] have "q \<le> (2::int) ^ nat (bitlen q)" by simp
    then have "(of_int q :: rat) \<le> of_int ((2::int) ^ nat (bitlen q))"
      by (simp only: of_int_le_iff)
    then have hi: "(of_int q :: rat) \<le> 2 powi (bitlen q)"
      using bq by (simp add: power_int_def)
    have "(2::rat) powi (k - 1) = 2 powi (bitlen p - 1) / 2 powi (bitlen q)"
      by (simp add: k_def power_int_diff)
    also have "\<dots> \<le> of_int p / 2 powi (bitlen q)"
      using lo two_powi_pos [of "bitlen q"] by (simp add: divide_right_mono)
    also have "\<dots> \<le> of_int p / of_int q"
      using hi p q by (simp add: divide_left_mono)
    finally have "(2::rat) powi (k - 1) \<le> x" by (simp add: x)
    with False show ?thesis by (simp add: floor_log2_def pq k_def Let_def)
  qed
qed

lemma round_half_even_error: "\<bar>of_int (round_half_even y) - y\<bar> \<le> 1 / 2"
proof -
  have "of_int \<lfloor>y\<rfloor> \<le> y" "y < of_int \<lfloor>y\<rfloor> + 1"
    by linarith+
  then show ?thesis
    by (auto simp: round_half_even_def Let_def)
qed

lemma binary64_error:
  assumes "0 < x"
  shows "\<bar>binary64 x - x\<bar> \<le> x / 2 ^ 53"
proof -
  define u :: rat where "u = 2 powi (floor_log2 x - 52)"
  define n where "n = round_half_even (x / u)"
  have u: "0 < u" by (simp add: u_def two_powi_pos)
  have b: "binary64 x = of_int n * u"
    using assms by (simp add: binary64_def n_def u_def Let_def)
  have "\<bar>of_int n * u - x\<bar> = u * \<bar>of_int n - x / u\<bar>"
  proof -
    have "of_int n * u - x = u * (of_int n - x / u)"
      using u by (simp add: field_simps)
    then show ?thesis using u by (simp add: abs_mult)
  qed
  also have "\<dots> \<le> u * (1 / 2)"
    using round_half_even_error [of "x / u"] u unfolding n_def
    by (intro mult_left_mono) simp_all
  also have "u * (1 / 2) = 2 powi (floor_log2 x) / 2 ^ 53"
  proof -
    have "u = 2 powi (floor_log2 x) / 2 powi 52"
      unfolding u_def by (simp add: power_int_diff)
    then show ?thesis by simp
  qed
  also have "\<dots> \<le> x / 2 ^ 53"
    using floor_log2_le [OF assms] by (simp add: divide_right_mono)
  finally show ?thesis by (simp add: b)
qed

lemma binary64_zero [simp]: "binary64 0 = 0"
  by (simp add: binary64_def)

text \<open>The quotient times 100, after the two roundings.\<close>

lemma percentage_error:
  assumes "0 \<le> x"
  shows "\<bar>binary64 (binary64 x * 100) - 100 * x\<bar> \<le> 100 * x / 2 ^ 51"
proof (cases "x = 0")
  case True
  then show ?thesis by simp
next
  case False
  with assms have x: "0 < x" by simp
  define q where "q = binary64 x"
  define p where "p = binary64 (q * 100)"
  from binary64_error [OF x] have q: "\<bar>q - x\<bar> \<le> x / 2 ^ 53" by (simp add: q_def)
  then have qlo: "x - x / 2 ^ 53 \<le> q" and qhi: "q \<le> x + x / 2 ^ 53" by linarith+
  have "0 < x - x / 2 ^ 53" using x by (simp add: field_simps)
  with qlo have q0: "0 < q * 100" by simp
  from binary64_error [OF q0] have p: "\<bar>p - q * 100\<bar> \<le> q * 100 / 2 ^ 53" by (simp add: p_def)
  have "\<bar>p - 100 * x\<bar> = \<bar>(p - q * 100) + 100 * (q - x)\<bar>"
    by (simp add: algebra_simps)
  also have "\<dots> \<le> \<bar>p - q * 100\<bar> + \<bar>100 * (q - x)\<bar>"
    by (rule abs_triangle_ineq)
  also have "\<dots> = \<bar>p - q * 100\<bar> + 100 * \<bar>q - x\<bar>"
    by (simp only: abs_mult abs_numeral)
  also have "\<dots> \<le> q * 100 / 2 ^ 53 + 100 * (x / 2 ^ 53)"
    by (rule add_mono [OF p mult_left_mono [OF q]]) simp
  also have "\<dots> \<le> (x + x / 2 ^ 53) * 100 / 2 ^ 53 + 100 * (x / 2 ^ 53)"
    using qhi by (simp add: divide_right_mono)
  also have "\<dots> \<le> 100 * x / 2 ^ 51"
    using x by (simp add: field_simps)
  finally show ?thesis by (simp add: p_def q_def)
qed

text \<open>The exponent is the right one: the number lies below the next power of two.\<close>

lemma floor_log2_less:
  assumes "0 < x"
  shows "x < 2 powi (floor_log2 x + 1)"
proof -
  obtain p q where pq: "quotient_of x = (p, q)" by (cases "quotient_of x")
  then have q: "0 < q" and x: "x = of_int p / of_int q"
    by (simp_all add: quotient_of_denom_pos quotient_of_div)
  with assms have p: "0 < p"
    by (simp add: zero_less_divide_iff)
  define k where "k = bitlen p - bitlen q"
  show ?thesis
  proof (cases "2 powi k \<le> x")
    case False
    then show ?thesis by (simp add: floor_log2_def pq k_def Let_def)
  next
    case True
    have bp: "1 \<le> bitlen p" and bq: "1 \<le> bitlen q"
      using p q by (simp_all add: bitlen_alt_def)
    from bitlen_bounds [OF p] have "p < (2::int) ^ nat (bitlen p)" by simp
    then have "(of_int p :: rat) < of_int ((2::int) ^ nat (bitlen p))"
      by (simp only: of_int_less_iff)
    then have hi: "(of_int p :: rat) < 2 powi (bitlen p)"
      using bp by (simp add: power_int_def)
    from bitlen_bounds [OF q] have "(2::int) ^ nat (bitlen q - 1) \<le> q" by simp
    then have "(of_int ((2::int) ^ nat (bitlen q - 1)) :: rat) \<le> of_int q"
      by (simp only: of_int_le_iff)
    then have lo: "(2::rat) powi (bitlen q - 1) \<le> of_int q"
      using bq by (simp add: power_int_def)
    have "x < 2 powi (bitlen p) / of_int q"
      using hi q by (simp add: x divide_strict_right_mono)
    also have "\<dots> \<le> 2 powi (bitlen p) / 2 powi (bitlen q - 1)"
      using lo two_powi_pos [of "bitlen q - 1"] two_powi_pos [of "bitlen p"] q
      by (intro divide_left_mono mult_pos_pos) simp_all
    also have "\<dots> = (2::rat) powi (k + 1)"
      by (simp add: k_def power_int_diff [symmetric] algebra_simps)
    finally show ?thesis
      using True by (simp add: floor_log2_def pq k_def Let_def)
  qed
qed

text \<open>
  \<^verbatim>\<open>Math.round\<close> of the computed percentage is the rounded exact percentage whenever the
  latter is no tie: its distance to the nearest tie is at least \<open>1 / (2 a)\<close>, more than the
  error of the computation.
\<close>

lemma half_integer_frac:
  fixes y :: rat
  assumes "y + 1 / 2 = of_int n"
  shows "frac y = 1 / 2"
proof -
  have y: "y = of_int (n - 1) + 1 / 2"
    using assms by simp
  have "\<lfloor>y\<rfloor> = n - 1"
    unfolding y by (rule floor_unique) simp_all
  then show ?thesis
    unfolding frac_def using y by simp
qed

lemma rounded_percentage:
  assumes a: "0 < a" and ca: "c \<le> a" and small: "a < 2 ^ 32"
    and tie: "frac (100 * of_nat c / of_nat a :: rat) \<noteq> 1 / 2"
  shows "\<lfloor>binary64 (binary64 (of_nat c / of_nat a) * 100) + 1 / 2\<rfloor>
           = round (100 * of_nat c / of_nat a :: rat)"
proof -
  define A :: rat where "A = of_nat a"
  define y :: rat where "y = 100 * of_nat c / A"
  define p :: rat where "p = binary64 (binary64 (of_nat c / A) * 100)"
  define n where "n = \<lfloor>y + 1 / 2\<rfloor>"
  have A: "0 < A" using a by (simp add: A_def)
  have A32: "A < 2 ^ 32"
  proof -
    from small have "(of_nat a :: rat) < of_nat (2 ^ 32)"
      by (simp only: of_nat_less_iff)
    then show ?thesis by (simp add: A_def)
  qed
  have x01: "0 \<le> of_nat c / A" "of_nat c / A \<le> 1"
    using A ca by (simp_all add: A_def)
  from percentage_error [OF x01(1)]
  have "\<bar>p - y\<bar> \<le> 100 * (of_nat c / A) / 2 ^ 51"
    by (simp add: p_def y_def)
  also have "\<dots> \<le> 100 * 1 / 2 ^ 51"
    using x01(2) by (intro divide_right_mono mult_left_mono) simp_all
  finally have close: "\<bar>p - y\<bar> \<le> 100 / 2 ^ 51" by simp
  have gap: "100 / 2 ^ 51 < 1 / (2 * A)"
  proof -
    have "100 * (2 * A) < 100 * (2 * 2 ^ 32)" using A32 by simp
    also have "\<dots> < (2::rat) ^ 51" by simp
    finally show ?thesis using A by (simp add: field_simps)
  qed
  define N :: int where "N = 200 * int c + int a - 2 * int a * n"
  have N: "(of_int N :: rat) = (y + 1 / 2 - of_int n) * (2 * A)"
    using A by (simp add: N_def y_def A_def field_simps)
  have n1: "of_int n \<le> y + 1 / 2" and n2: "y + 1 / 2 < of_int n + 1"
    unfolding n_def by linarith+
  have "y + 1 / 2 \<noteq> of_int n"
    using half_integer_frac [of y n] tie by (auto simp: y_def A_def)
  with n1 have "0 < y + 1 / 2 - of_int n" by simp
  with A have "(0::rat) < of_int N" unfolding N by simp
  then have "1 \<le> N" by simp
  then have "(1::rat) \<le> of_int N" by (simp only: of_int_1_le_iff)
  then have lo: "1 / (2 * A) \<le> y + 1 / 2 - of_int n"
    unfolding N using A by (simp add: field_simps)
  define M :: int where "M = 2 * int a * (n + 1) - (200 * int c + int a)"
  have M: "(of_int M :: rat) = (of_int n + 1 - (y + 1 / 2)) * (2 * A)"
    using A by (simp add: M_def y_def A_def field_simps)
  from n2 A have "(0::rat) < of_int M" unfolding M by simp
  then have "1 \<le> M" by simp
  then have "(1::rat) \<le> of_int M" by (simp only: of_int_1_le_iff)
  then have hi: "1 / (2 * A) \<le> of_int n + 1 - (y + 1 / 2)"
    unfolding M using A by (simp add: field_simps)
  from close have "y - 100 / 2 ^ 51 \<le> p" "p \<le> y + 100 / 2 ^ 51"
    by linarith+
  with gap lo hi have "of_int n \<le> p + 1 / 2" "p + 1 / 2 < of_int n + 1"
    by linarith+
  then have "\<lfloor>p + 1 / 2\<rfloor> = n"
    by (rule floor_unique)
  then show ?thesis
    by (simp add: p_def n_def y_def A_def round_def)
qed

subsection \<open>Grouping\<close>

lemma push_group_map:
  "distinct ks \<Longrightarrow>
     push_group key c (map (\<lambda>k. (k, g k)) ks) =
       (if key \<in> set ks then map (\<lambda>k. (k, if k = key then g k @ [c] else g k)) ks
        else map (\<lambda>k. (k, g k)) ks @ [(key, [c])])"
  by (induction ks) auto

text \<open>The keys of a list in the order of their first occurrence.\<close>

lemma first_keys_snoc:
  "rev (remdups (rev (map k (rs @ [r])))) =
     (if k r \<in> set (rev (remdups (rev (map k rs)))) then rev (remdups (rev (map k rs)))
      else rev (remdups (rev (map k rs))) @ [k r])"
  by simp

lemma grouped_by_key:
  "foldl (\<lambda>acc c. push_group (k c) c acc) [] rs =
     map (\<lambda>x. (x, filter (\<lambda>c. k c = x) rs)) (rev (remdups (rev (map k rs))))"
proof (induction rs rule: rev_induct)
  case Nil
  then show ?case by simp
next
  case (snoc r rs)
  let ?ks = "rev (remdups (rev (map k rs)))"
  have d: "distinct ?ks" by simp
  have s: "set ?ks = k ` set rs" by simp
  have "foldl (\<lambda>acc c. push_group (k c) c acc) [] (rs @ [r]) =
      push_group (k r) r (map (\<lambda>x. (x, filter (\<lambda>c. k c = x) rs)) ?ks)"
    by (simp add: snoc.IH)
  also have "\<dots> =
      (if k r \<in> set ?ks
       then map (\<lambda>x. (x, if x = k r then filter (\<lambda>c. k c = x) rs @ [r]
                          else filter (\<lambda>c. k c = x) rs)) ?ks
       else map (\<lambda>x. (x, filter (\<lambda>c. k c = x) rs)) ?ks @ [(k r, [r])])"
    by (rule push_group_map [OF d])
  also have "\<dots> = map (\<lambda>x. (x, filter (\<lambda>c. k c = x) (rs @ [r])))
      (rev (remdups (rev (map k (rs @ [r])))))"
  proof (cases "k r \<in> set ?ks")
    case True
    then show ?thesis
      unfolding first_keys_snoc by (auto simp: eq_commute [of "k r"])
  next
    case False
    then have "filter (\<lambda>c. k c = k r) rs = []"
      unfolding s filter_empty_conv by (metis imageI)
    moreover from False have "\<And>x. x \<in> set ?ks \<Longrightarrow> k r \<noteq> x"
      by blast
    ultimately show ?thesis
      using False unfolding first_keys_snoc by (simp cong: map_cong)
  qed
  finally show ?case .
qed

lemma length_filter_distinct:
  "distinct ks \<Longrightarrow> length (filter P ks) = card {k \<in> set ks. P k}"
proof -
  assume "distinct ks"
  then have "distinct (filter P ks)" by simp
  then have "card (set (filter P ks)) = length (filter P ks)"
    by (rule distinct_card)
  moreover have "set (filter P ks) = {k \<in> set ks. P k}"
    by (rule set_filter)
  ultimately show ?thesis by (simp only:)
qed

lemma groupedCriteria_eq:
  "groupedCriteria results =
     map (\<lambda>k. (k, criterion_group results k))
       (rev (remdups (rev (map criterion_key results))))"
  unfolding groupedCriteria_def criterion_group_def
  using grouped_by_key [of criterion_key results]
  by (simp add: criterion_key_def)

lemma applicableCriteria_eq:
  "applicableCriteria results =
     map (criterion_group results)
       (filter (\<lambda>k. group_applicable (criterion_group results k))
          (rev (remdups (rev (map criterion_key results)))))"
  by (simp add: applicableCriteria_def groupedCriteria_eq filter_map comp_def
      group_applicable_def list_ex_iff)

lemma compliantCriteria_eq:
  "compliantCriteria results =
     map (criterion_group results)
       (filter (\<lambda>k. group_compliant (criterion_group results k))
          (rev (remdups (rev (map criterion_key results)))))"
proof -
  have "(\<lambda>k. group_applicable (criterion_group results k)
          \<and> list_all (\<lambda>c. cr_status c = COMPLIANT \<or> cr_status c = NOT_APPLICABLE)
               (criterion_group results k))
      = (\<lambda>k. group_compliant (criterion_group results k))"
    by (simp add: group_compliant_def list_all_iff)
  then show ?thesis
    by (simp add: compliantCriteria_def applicableCriteria_eq filter_map comp_def
      conj_commute)
qed

lemma length_applicableCriteria:
  "length (applicableCriteria results) = applicable_count results"
  unfolding applicableCriteria_eq applicable_count_def length_map
  by (subst length_filter_distinct) simp_all

lemma length_compliantCriteria:
  "length (compliantCriteria results) = compliant_count results"
  unfolding compliantCriteria_eq compliant_count_def length_map
  by (subst length_filter_distinct) simp_all

lemma compliant_le_applicable: "compliant_count results \<le> applicable_count results"
  unfolding compliant_count_def applicable_count_def
  by (rule card_mono) (auto simp: group_compliant_def)

lemma applicable_le_length: "applicable_count results \<le> length results"
proof -
  have "applicable_count results \<le> card (criterion_key ` set results)"
    unfolding applicable_count_def by (rule card_mono) auto
  also have "\<dots> \<le> card (set results)" by (rule card_image_le) simp
  also have "\<dots> \<le> length results" by (rule card_length)
  finally show ?thesis .
qed

lemma accessibilityRate_none_applicable:
  "applicable_count results = 0 \<Longrightarrow> accessibilityRate results = NaN"
  using compliant_le_applicable [of results]
  by (simp add: accessibilityRate_def js_length_def length_applicableCriteria
      length_compliantCriteria)

lemma accessibilityRate_rounded:
  assumes "0 < applicable_count results" and "length results < 2 ^ 32"
    and "frac (100 * of_nat (compliant_count results) / of_nat (applicable_count results) :: rat)
           \<noteq> 1 / 2"
  shows "accessibilityRate results =
      Finite (of_int (round (100 * of_nat (compliant_count results)
                              / of_nat (applicable_count results) :: rat)))"
proof -
  from assms(2) applicable_le_length [of results]
  have "applicable_count results < 2 ^ 32" by simp
  from rounded_percentage [OF assms(1) compliant_le_applicable this assms(3)] assms(1)
  show ?thesis
    by (simp add: accessibilityRate_def js_length_def length_applicableCriteria
      length_compliantCriteria)
qed

lemma getAuditReportData_Some:
  assumes "getAuditReportData RGAA_topics d consultUniqueId = Some report"
  obtains audit where "audit \<in> set (audits d)"
    and "audit_consultUniqueId audit = consultUniqueId"
    and "report_applicableCriteriaCount report =
           length (applicableCriteria
             (filter (\<lambda>r. cr_auditUniqueId r = audit_editUniqueId audit) (criterionResults d)))"
    and "report_accessibilityRate report =
           accessibilityRate
             (filter (\<lambda>r. cr_auditUniqueId r = audit_editUniqueId audit) (criterionResults d))"
    and "report_pageDistributions report =
           map (pageDistribution
                  (filter (\<lambda>r. cr_auditUniqueId r = audit_editUniqueId audit)
                     (criterionResults d)))
             (filter (\<lambda>p. page_auditUniqueId p = audit_editUniqueId audit) (auditedPages d))"
    and "report_topicDistributions report =
           map (topicDistribution
                  (filter (\<lambda>r. cr_auditUniqueId r = audit_editUniqueId audit)
                     (criterionResults d)))
             RGAA_topics"
proof (cases "find (\<lambda>a. audit_consultUniqueId a = consultUniqueId) (audits d)")
  case None
  with assms show ?thesis by (simp add: getAuditReportData_def)
next
  case (Some audit)
  then have "audit \<in> set (audits d)" "audit_consultUniqueId audit = consultUniqueId"
    by (auto simp: find_Some_iff)
  moreover from assms Some have "report =
      \<lparr>report_consultUniqueId = audit_consultUniqueId audit,
       report_errorCount =
         length (filter (\<lambda>r. cr_status r = NOT_COMPLIANT)
           (filter (\<lambda>r. cr_auditUniqueId r = audit_editUniqueId audit) (criterionResults d))),
       report_blockingErrorCount =
         length (filter (\<lambda>r. cr_status r = NOT_COMPLIANT \<and> cr_userImpact r = Some BLOCKING)
           (filter (\<lambda>r. cr_auditUniqueId r = audit_editUniqueId audit) (criterionResults d))),
       report_totalCriteriaCount = 106,
       report_applicableCriteriaCount =
         length (applicableCriteria
           (filter (\<lambda>r. cr_auditUniqueId r = audit_editUniqueId audit) (criterionResults d))),
       report_accessibilityRate =
         accessibilityRate
           (filter (\<lambda>r. cr_auditUniqueId r = audit_editUniqueId audit) (criterionResults d)),
       report_pageDistributions =
         map (pageDistribution
                (filter (\<lambda>r. cr_auditUniqueId r = audit_editUniqueId audit)
                   (criterionResults d)))
           (inc_pages (include_of d audit)),
       report_resultDistribution =
         \<lparr>rd_compliant =
            share (filter (\<lambda>r. cr_status r = COMPLIANT)
                (filter (\<lambda>r. cr_auditUniqueId r = audit_editUniqueId audit)
                   (criterionResults d)))
              (js_length (filter (\<lambda>r. cr_auditUniqueId r = audit_editUniqueId audit)
                   (criterionResults d))),
          rd_notApplicable =
            share (filter (\<lambda>r. cr_status r = NOT_APPLICABLE)
                (filter (\<lambda>r. cr_auditUniqueId r = audit_editUniqueId audit)
                   (criterionResults d)))
              (js_length (filter (\<lambda>r. cr_auditUniqueId r = audit_editUniqueId audit)
                   (criterionResults d))),
          rd_notCompliant =
            share (filter (\<lambda>r. cr_status r = NOT_COMPLIANT)
                (filter (\<lambda>r. cr_auditUniqueId r = audit_editUniqueId audit)
                   (criterionResults d)))
              (js_length (filter (\<lambda>r. cr_auditUniqueId r = audit_editUniqueId audit)
                   (criterionResults d)))\<rparr>,
       report_topicDistributions =
         map (topicDistribution
                (filter (\<lambda>r. cr_auditUniqueId r = audit_editUniqueId audit)
                   (criterionResults d)))
           RGAA_topics\<rparr>"
    unfolding getAuditReportData_def Let_def by (simp only: option.case option.inject)
  ultimately show ?thesis
    by (intro that [of audit]) (simp_all add: include_of_def)
qed

text \<open>
  Claim C2, as the code has it.  In the report of an audit, computed from the stored
  results of that audit, the number of applicable criteria is the number of (topic,
  criterion) groups that are applicable, and the groups counted as compliant are the
  compliant ones.  With no applicable group the rate is NaN: nothing is raised.
  Otherwise the rate is 100 \<times> compliant / applicable rounded to the nearest integer,
  provided that this quotient is not exactly halfway between two integers (and that
  the results fit an array, which has fewer than 2 to the 32 elements).
\<close>

theorem report_accessibility_rate:
  "getAuditReportData RGAA_topics d consultUniqueId = Some report \<longrightarrow>
     (\<exists>audit\<in>set (audits d). audit_consultUniqueId audit = consultUniqueId \<and>
        (let results = filter (\<lambda>r. cr_auditUniqueId r = audit_editUniqueId audit)
                         (criterionResults d);
             a = applicable_count results;
             c = compliant_count results
         in report_applicableCriteriaCount report = a
            \<and> length (applicableCriteria results) = a
            \<and> length (compliantCriteria results) = c
            \<and> report_accessibilityRate report = accessibilityRate results
            \<and> (a = 0 \<longrightarrow> report_accessibilityRate report = NaN)
            \<and> (0 < a \<and> length results < 2 ^ 32
                 \<and> frac (100 * of_nat c / of_nat a :: rat) \<noteq> 1 / 2 \<longrightarrow>
                 report_accessibilityRate report
                   = Finite (of_int (round (100 * of_nat c / of_nat a :: rat))))))"
proof
  assume "getAuditReportData RGAA_topics d consultUniqueId = Some report"
  then obtain audit where audit: "audit \<in> set (audits d)"
    "audit_consultUniqueId audit = consultUniqueId"
    and count: "report_applicableCriteriaCount report =
           length (applicableCriteria
             (filter (\<lambda>r. cr_auditUniqueId r = audit_editUniqueId audit) (criterionResults d)))"
    and rate: "report_accessibilityRate report =
           accessibilityRate
             (filter (\<lambda>r. cr_auditUniqueId r = audit_editUniqueId audit) (criterionResults d))"
    by (rule getAuditReportData_Some)
  define results where
    "results = filter (\<lambda>r. cr_auditUniqueId r = audit_editUniqueId audit) (criterionResults d)"
  have main: "report_applicableCriteriaCount report = applicable_count results
      \<and> length (applicableCriteria results) = applicable_count results
      \<and> length (compliantCriteria results) = compliant_count results
      \<and> report_accessibilityRate report = accessibilityRate results
      \<and> (applicable_count results = 0 \<longrightarrow> report_accessibilityRate report = NaN)
      \<and> (0 < applicable_count results \<and> length results < 2 ^ 32
           \<and> frac (100 * of_nat (compliant_count results)
                     / of_nat (applicable_count results) :: rat) \<noteq> 1 / 2 \<longrightarrow>
           report_accessibilityRate report
             = Finite (of_int (round (100 * of_nat (compliant_count results)
                                        / of_nat (applicable_count results) :: rat))))"
    using count rate accessibilityRate_none_applicable [of results]
      accessibilityRate_rounded [of results]
    unfolding results_def [symmetric]
    by (simp add: length_applicableCriteria length_compliantCriteria)
  show "\<exists>audit\<in>set (audits d). audit_consultUniqueId audit = consultUniqueId \<and>
        (let results = filter (\<lambda>r. cr_auditUniqueId r = audit_editUniqueId audit)
                         (criterionResults d);
             a = applicable_count results;
             c = compliant_count results
         in report_applicableCriteriaCount report = a
            \<and> length (applicableCriteria results) = a
            \<and> length (compliantCriteria results) = c
            \<and> report_accessibilityRate report = accessibilityRate results
            \<and> (a = 0 \<longrightarrow> report_accessibilityRate report = NaN)
            \<and> (0 < a \<and> length results < 2 ^ 32
                 \<and> frac (100 * of_nat c / of_nat a :: rat) \<noteq> 1 / 2 \<longrightarrow>
                 report_accessibilityRate report
                   = Finite (of_int (round (100 * of_nat c / of_nat a :: rat)))))"
    unfolding Let_def
    apply (rule bexI [where x = audit])
     apply (rule conjI [OF audit(2) main [unfolded results_def]])
    apply (rule audit(1))
    done
qed

theorem report_accessibility_rate_witness:
  "(\<exists>report. getAuditReportData [] db_ten_groups ''consult-1'' = Some report
      \<and> report_applicableCriteriaCount report = 10
      \<and> report_accessibilityRate report = Finite 70)
   \<and> (\<exists>report. getAuditReportData [] db_one_page ''consult-1'' = Some report
      \<and> report_applicableCriteriaCount report = 0
      \<and> report_accessibilityRate report = NaN)"
proof (intro conjI)
  have audits: "audits db_ten_groups = [sample_audit]"
    by (simp add: db_ten_groups_def db_one_page_def)
  have results: "filter (\<lambda>r. cr_auditUniqueId r = audit_editUniqueId sample_audit)
      (criterionResults db_ten_groups) = ten_groups"
    by (simp add: db_ten_groups_def ten_groups_def sample_result_def sample_audit_def)
  have "length (applicableCriteria ten_groups) = 10" by code_simp
  then have a: "applicable_count ten_groups = 10"
    by (simp only: length_applicableCriteria)
  have "length (compliantCriteria ten_groups) = 7" by code_simp
  then have c: "compliant_count ten_groups = 7"
    by (simp only: length_compliantCriteria)
  have len: "length ten_groups < 2 ^ 32"
    by (simp add: ten_groups_def)
  obtain report where report: "getAuditReportData [] db_ten_groups ''consult-1'' = Some report"
    by (simp add: getAuditReportData_def audits sample_audit_def Let_def)
  from report_accessibility_rate [of "[]" db_ten_groups "''consult-1''" report] report
  have "report_applicableCriteriaCount report = applicable_count ten_groups
      \<and> (0 < applicable_count ten_groups \<and> length ten_groups < 2 ^ 32
           \<and> frac (100 * of_nat (compliant_count ten_groups)
                     / of_nat (applicable_count ten_groups) :: rat) \<noteq> 1 / 2 \<longrightarrow>
           report_accessibilityRate report
             = Finite (of_int (round (100 * of_nat (compliant_count ten_groups)
                                        / of_nat (applicable_count ten_groups) :: rat))))"
    unfolding audits Let_def by (auto simp: results)
  moreover have "frac (70::rat) = 0"
    by (simp add: frac_def)
  ultimately have "report_applicableCriteriaCount report = 10
      \<and> report_accessibilityRate report = Finite 70"
    using len unfolding a c by simp
  with report show "\<exists>report. getAuditReportData [] db_ten_groups ''consult-1'' = Some report
      \<and> report_applicableCriteriaCount report = 10
      \<and> report_accessibilityRate report = Finite 70"
    by blast
next
  have audits: "audits db_one_page = [sample_audit]"
    by (simp add: db_one_page_def)
  have results: "filter (\<lambda>r. cr_auditUniqueId r = audit_editUniqueId sample_audit)
      (criterionResults db_one_page) = []"
    by (simp add: db_one_page_def)
  have a: "applicable_count [] = 0"
    by (simp add: applicable_count_def)
  obtain report where report: "getAuditReportData [] db_one_page ''consult-1'' = Some report"
    by (simp add: getAuditReportData_def audits sample_audit_def Let_def)
  from report_accessibility_rate [of "[]" db_one_page "''consult-1''" report] report
  have "report_applicableCriteriaCount report = applicable_count []
      \<and> (applicable_count [] = 0 \<longrightarrow> report_accessibilityRate report = NaN)"
    unfolding audits Let_def by (auto simp: results)
  with a have "report_applicableCriteriaCount report = 0
      \<and> report_accessibilityRate report = NaN"
    by simp
  with report show "\<exists>report. getAuditReportData [] db_one_page ''consult-1'' = Some report
      \<and> report_applicableCriteriaCount report = 0
      \<and> report_accessibilityRate report = NaN"
    by blast
qed

text \<open>
  The claim as stated fails at a tie.  With 40 applicable criteria of which 23 are
  compliant, \<open>100 \<times> 23 / 40\<close> is 57.5 and rounds to 58; the report has 57, since the double
  nearest to \<open>23 / 40\<close> lies below it and its product with 100 is the double just below
  57.5.
\<close>

theorem report_rate_at_a_tie:
  "map_option report_applicableCriteriaCount
      (getAuditReportData [] db_forty_groups ''consult-1'') = Some 40
   \<and> applicable_count forty_groups = 40
   \<and> compliant_count forty_groups = 23
   \<and> js_times (js_divide (Finite 23) (Finite 40)) (Finite 100)
       = Finite (8092405580431359 / 140737488355328)
   \<and> map_option report_accessibilityRate
      (getAuditReportData [] db_forty_groups ''consult-1'') = Some (Finite 57)
   \<and> round (100 * 23 / 40 :: rat) = 58"
proof -
  have "map_option report_applicableCriteriaCount
      (getAuditReportData [] db_forty_groups ''consult-1'') = Some 40"
    by code_simp
  moreover have "length (applicableCriteria forty_groups) = 40" by code_simp
  then have "applicable_count forty_groups = 40"
    by (simp only: length_applicableCriteria)
  moreover have "length (compliantCriteria forty_groups) = 23" by code_simp
  then have "compliant_count forty_groups = 23"
    by (simp only: length_compliantCriteria)
  moreover have "js_times (js_divide (Finite 23) (Finite 40)) (Finite 100)
       = Finite (8092405580431359 / 140737488355328)"
    by code_simp
  moreover have "map_option report_accessibilityRate
      (getAuditReportData [] db_forty_groups ''consult-1'') = Some (Finite 57)"
    by code_simp
  moreover have "round (100 * 23 / 40 :: rat) = 58"
    by (simp add: round_def)
  ultimately show ?thesis by blast
qed

subsection \<open>Distributions\<close>









end
